theory Spec2Isabelle
  imports Main "HOL-Library.Sublist" "HOL-Library.Char_ord" "HOL-Library.List_Lexorder"
begin

section \<open>Values of the service\<close>

text \<open>
  The service of \<^verbatim>\<open>backend/server.py\<close> keeps its records as documents (Python
  dictionaries) in three collections of a document store. A document is a finite map from
  field names to values. Timestamps are timezone-aware UTC \<^verbatim>\<open>datetime\<close> objects
  (\<^verbatim>\<open>datetime.now(timezone.utc)\<close>), stored as the text that \<^verbatim>\<open>isoformat()\<close>
  gives.
\<close>

record datetime =
  year :: nat
  month :: nat
  day :: nat
  hour :: nat
  minute :: nat
  second :: nat
  microsecond :: nat

datatype field =
  VNone
  | VBool bool
  | VInt int
  | VStr string
  | VList "string list"
  | VDatetime datetime

type_synonym doc = "string \<rightharpoonup> field"

text \<open>
  What a request handler raises: an \<^verbatim>\<open>HTTPException(status_code, detail)\<close>, or any
  other exception that leaves the handler uncaught (its message is kept).
\<close>

datatype error =
  HTTPException nat string
  | Unhandled string

subsection \<open>Decimal text of integers\<close>

text \<open>\<^verbatim>\<open>str(n)\<close> of an integer, as an f-string renders it.\<close>

definition digit_char :: "nat \<Rightarrow> char" where
  "digit_char d =
     (if d = 0 then CHR ''0'' else if d = 1 then CHR ''1'' else if d = 2 then CHR ''2''
      else if d = 3 then CHR ''3'' else if d = 4 then CHR ''4'' else if d = 5 then CHR ''5''
      else if d = 6 then CHR ''6'' else if d = 7 then CHR ''7'' else if d = 8 then CHR ''8''
      else CHR ''9'')"

fun str_nat :: "nat \<Rightarrow> string" where
  "str_nat n = (if n < 10 then [digit_char n] else str_nat (n div 10) @ [digit_char (n mod 10)])"

text \<open>The equation of \<^const>\<open>str_nat\<close> is unfolded on demand only.\<close>

declare str_nat.simps [simp del]

definition str_int :: "int \<Rightarrow> string" where
  "str_int i = (if i < 0 then CHR ''-'' # str_nat (nat (- i)) else str_nat (nat i))"

subsection \<open>ISO text of timestamps\<close>

text \<open>
  \<^verbatim>\<open>'%0kd' % n\<close>: the decimal text of \<open>n\<close>, padded on the left with zeros to at
  least \<open>k\<close> characters.
\<close>

definition zero_pad :: "nat \<Rightarrow> nat \<Rightarrow> string" where
  "zero_pad k n = replicate (k - length (str_nat n)) (CHR ''0'') @ str_nat n"

text \<open>
  \<^verbatim>\<open>datetime.isoformat()\<close> of a UTC-aware timestamp:
  \<^verbatim>\<open>YYYY-MM-DDTHH:MM:SS[.ffffff]+00:00\<close>, where the fraction is left out when the
  microsecond is zero.
\<close>

definition isoformat :: "datetime \<Rightarrow> string" where
  "isoformat t =
     zero_pad 4 (year t) @ ''-'' @ zero_pad 2 (month t) @ ''-'' @ zero_pad 2 (day t) @ ''T'' @
     zero_pad 2 (hour t) @ '':'' @ zero_pad 2 (minute t) @ '':'' @ zero_pad 2 (second t) @
     (if microsecond t \<noteq> 0 then ''.'' @ zero_pad 6 (microsecond t) else []) @ ''+00:00''"

text \<open>
  The range \<^verbatim>\<open>datetime\<close> allows for each field, and the order of UTC timestamps:
  field by field, the year first.
\<close>

definition valid_datetime :: "datetime \<Rightarrow> bool" where
  "valid_datetime t \<longleftrightarrow>
     1 \<le> year t \<and> year t \<le> 9999 \<and> 1 \<le> month t \<and> month t \<le> 12 \<and> 1 \<le> day t \<and> day t \<le> 31 \<and>
     hour t < 24 \<and> minute t < 60 \<and> second t < 60 \<and> microsecond t < 1000000"



section \<open>Request models\<close>

text \<open>
  \<^verbatim>\<open>MedicalHistoryCreate\<close> and \<^verbatim>\<open>RiskAssessmentRequest\<close> declare the same seven
  fields; \<^verbatim>\<open>Optional\<close> fields are \<open>None\<close> when the request leaves them out.
\<close>

record MedicalHistoryCreate =
  age :: int
  family_history :: bool
  previous_biopsies :: bool
  hormone_therapy :: bool
  first_pregnancy_age :: "int option"
  menstruation_age :: "int option"
  breast_density :: "string option"

type_synonym RiskAssessmentRequest = MedicalHistoryCreate

section \<open>Risk scoring policy\<close>

text \<open>
  The score of \<^verbatim>\<open>risk_assessment\<close>: the counter starts at zero and each test adds to
  it in the order of the source; the age tests are one \<^verbatim>\<open>if/elif/elif\<close> chain.
\<close>

definition calculate_risk_score :: "RiskAssessmentRequest \<Rightarrow> int" where
  "calculate_risk_score data =
     (let risk_score = 0;
          risk_score = (if age data > 50 then risk_score + 3
                        else if age data > 40 then risk_score + 2
                        else if age data > 30 then risk_score + 1
                        else risk_score);
          risk_score = (if family_history data then risk_score + 4 else risk_score);
          risk_score = (if previous_biopsies data then risk_score + 3 else risk_score);
          risk_score = (if hormone_therapy data then risk_score + 2 else risk_score);
          risk_score = (if breast_density data = Some ''dense'' then risk_score + 2 else risk_score)
      in risk_score)"

definition determine_risk_level :: "int \<Rightarrow> string" where
  "determine_risk_level risk_score =
     (if risk_score \<ge> 8 then ''high''
      else if risk_score \<ge> 4 then ''moderate''
      else ''low'')"

section \<open>Prompt of the risk assessment\<close>

text \<open>
  \<^verbatim>\<open>{x or 'N/A'}\<close> inside the f-string: Python's \<^verbatim>\<open>or\<close> yields its right operand
  when the left one is falsy, and \<open>None\<close>, the integer \<open>0\<close> and the empty string are
  falsy.
\<close>

definition or_NA_int :: "int option \<Rightarrow> string" where
  "or_NA_int x = (case x of None \<Rightarrow> ''N/A'' | Some i \<Rightarrow> (if i \<noteq> 0 then str_int i else ''N/A''))"

definition or_NA_str :: "string option \<Rightarrow> string" where
  "or_NA_str x = (case x of None \<Rightarrow> ''N/A'' | Some s \<Rightarrow> (if s \<noteq> [] then s else ''N/A''))"

definition yes_no :: "bool \<Rightarrow> string" where
  "yes_no b = (if b then ''Yes'' else ''No'')"

definition risk_prompt :: "RiskAssessmentRequest \<Rightarrow> string" where
  "risk_prompt data =
     ''Based on the following patient information, provide a detailed breast cancer risk assessment:\<newline>'' @
     ''        \<newline>'' @
     ''Age: '' @ str_int (age data) @ ''\<newline>'' @
     ''Family History: '' @ yes_no (family_history data) @ ''\<newline>'' @
     ''Previous Biopsies: '' @ yes_no (previous_biopsies data) @ ''\<newline>'' @
     ''Hormone Therapy: '' @ yes_no (hormone_therapy data) @ ''\<newline>'' @
     ''First Pregnancy Age: '' @ or_NA_int (first_pregnancy_age data) @ ''\<newline>'' @
     ''Menstruation Start Age: '' @ or_NA_int (menstruation_age data) @ ''\<newline>'' @
     ''Breast Density: '' @ or_NA_str (breast_density data) @ ''\<newline>'' @
     ''\<newline>'' @
     ''Provide a comprehensive risk analysis with specific recommendations.''"

section \<open>Collaborators outside the service\<close>

text \<open>
  What the handlers call but do not define is a parameter of the model, one record per
  request: the fresh identifier and the clock reading the request draws
  (\<^verbatim>\<open>uuid.uuid4()\<close>, \<^verbatim>\<open>datetime.now(timezone.utc)\<close>), the password context, the
  token library, the image library
  (\<^verbatim>\<open>Image.open\<close> then \<^verbatim>\<open>image.save(format="PNG")\<close>), base64, the language model,
  the store's insertion, and two functions of Python's library: \<^verbatim>\<open>str.lower\<close>, which
  lowers every cased letter of Unicode, and \<^verbatim>\<open>datetime.fromisoformat\<close>, which raises
  \<^verbatim>\<open>ValueError\<close> on a text it cannot read. A call that can raise returns a sum whose
  left side is the text of the exception (\<^verbatim>\<open>str(e)\<close>). Decoding a token gives the
  \<^verbatim>\<open>user_id\<close> entry of its payload, if any, or one of the two exceptions the source
  tells apart. The session identifier of a chat is not modelled. Texts are lists of bytes
  (UTF-8), in which a text of ASCII characters occurs exactly where it occurs in the
  sequence of code points.
\<close>

datatype jwt_result =
  Decoded "string option"
  | ExpiredSignatureError
  | InvalidTokenError

record env =
  uuid4 :: string
  now :: datetime
  pwd_context_hash :: "string \<Rightarrow> string"
  pwd_context_verify :: "string \<Rightarrow> string \<Rightarrow> bool"
  jwt_encode :: "doc \<Rightarrow> string"
  jwt_decode :: "string \<Rightarrow> jwt_result"
  add_days :: "datetime \<Rightarrow> nat \<Rightarrow> datetime"
  reencode_png :: "string \<Rightarrow> string + string"
  b64encode :: "string \<Rightarrow> string"
  send_message :: "string \<Rightarrow> string \<Rightarrow> string option \<Rightarrow> string + string"
  insert_error :: "doc \<Rightarrow> string option"
  str_lower :: "string \<Rightarrow> string"
  fromisoformat :: "string \<Rightarrow> string + datetime"

section \<open>The document store\<close>

text \<open>
  Three collections, each a list of documents in insertion order. A query
  \<^verbatim>\<open>{"k": v}\<close> matches the documents whose field \<open>k\<close> equals \<open>v\<close>. The store's own
  \<^verbatim>\<open>_id\<close> field, which every read of the source projects away or ignores, is left out.
\<close>

record db =
  users :: "doc list"
  medical_history :: "doc list"
  analyses :: "doc list"

definition matches :: "string \<times> field \<Rightarrow> doc \<Rightarrow> bool" where
  "matches q d \<longleftrightarrow> d (fst q) = Some (snd q)"

definition find_docs :: "string \<times> field \<Rightarrow> doc list \<Rightarrow> doc list" where
  "find_docs q ds = filter (matches q) ds"

definition find_one :: "string \<times> field \<Rightarrow> doc list \<Rightarrow> doc option" where
  "find_one q ds = (case find_docs q ds of [] \<Rightarrow> None | d # _ \<Rightarrow> Some d)"

definition delete_many :: "string \<times> field \<Rightarrow> doc list \<Rightarrow> doc list" where
  "delete_many q ds = filter (\<lambda>d. \<not> matches q d) ds"

definition insert_one :: "env \<Rightarrow> doc \<Rightarrow> doc list \<Rightarrow> string + doc list" where
  "insert_one env d ds = (case insert_error env d of Some e \<Rightarrow> Inl e | None \<Rightarrow> Inr (ds @ [d]))"

text \<open>
  \<^verbatim>\<open>.sort(k, -1)\<close>: descending by the field \<open>k\<close>. The store compares texts character
  by character, by character code, a proper prefix first; the sorted fields of this
  service are texts, and a document whose field is no text counts as having the least
  key. Among documents with equal keys the store promises no order; the model keeps their
  insertion order.
\<close>

definition sort_key_of :: "string \<Rightarrow> doc \<Rightarrow> string" where
  "sort_key_of k d = (case d k of Some (VStr s) \<Rightarrow> s | _ \<Rightarrow> [])"

fun insort_desc :: "string \<Rightarrow> doc \<Rightarrow> doc list \<Rightarrow> doc list" where
  "insort_desc k d [] = [d]"
| "insort_desc k d (x # xs) =
     (if sort_key_of k x \<le> sort_key_of k d then d # x # xs else x # insort_desc k d xs)"

definition sort_desc :: "string \<Rightarrow> doc list \<Rightarrow> doc list" where
  "sort_desc k ds = foldr (insort_desc k) ds []"

definition to_list :: "nat \<Rightarrow> doc list \<Rightarrow> doc list" where
  "to_list n ds = take n ds"

text \<open>\<^verbatim>\<open>model_dump(exclude=ks)\<close> and the projection \<^verbatim>\<open>{"k": 0}\<close>: the fields \<open>ks\<close> are dropped.\<close>

definition exclude :: "string set \<Rightarrow> doc \<Rightarrow> doc" where
  "exclude ks d = d |` (- ks)"

section \<open>Stored models\<close>

record User =
  u_id :: string
  u_email :: string
  u_full_name :: string
  u_created_at :: datetime

record MedicalHistory = MedicalHistoryCreate +
  h_id :: string
  h_user_id :: string
  h_created_at :: datetime

record Analysis =
  a_id :: string
  a_user_id :: string
  a_analysis_type :: string
  a_result :: string
  a_risk_level :: string
  a_recommendations :: "string list"
  a_image_data :: "string option"
  a_created_at :: datetime

definition opt_int :: "int option \<Rightarrow> field" where
  "opt_int x = (case x of None \<Rightarrow> VNone | Some i \<Rightarrow> VInt i)"

definition opt_str :: "string option \<Rightarrow> field" where
  "opt_str x = (case x of None \<Rightarrow> VNone | Some s \<Rightarrow> VStr s)"

definition model_dump_User :: "User \<Rightarrow> doc" where
  "model_dump_User u =
     [''id'' \<mapsto> VStr (u_id u),
      ''email'' \<mapsto> VStr (u_email u),
      ''full_name'' \<mapsto> VStr (u_full_name u),
      ''created_at'' \<mapsto> VDatetime (u_created_at u)]"

definition model_dump_MedicalHistory :: "MedicalHistory \<Rightarrow> doc" where
  "model_dump_MedicalHistory h =
     [''id'' \<mapsto> VStr (h_id h),
      ''user_id'' \<mapsto> VStr (h_user_id h),
      ''age'' \<mapsto> VInt (age h),
      ''family_history'' \<mapsto> VBool (family_history h),
      ''previous_biopsies'' \<mapsto> VBool (previous_biopsies h),
      ''hormone_therapy'' \<mapsto> VBool (hormone_therapy h),
      ''first_pregnancy_age'' \<mapsto> opt_int (first_pregnancy_age h),
      ''menstruation_age'' \<mapsto> opt_int (menstruation_age h),
      ''breast_density'' \<mapsto> opt_str (breast_density h),
      ''created_at'' \<mapsto> VDatetime (h_created_at h)]"

definition model_dump_Analysis :: "Analysis \<Rightarrow> doc" where
  "model_dump_Analysis a =
     [''id'' \<mapsto> VStr (a_id a),
      ''user_id'' \<mapsto> VStr (a_user_id a),
      ''analysis_type'' \<mapsto> VStr (a_analysis_type a),
      ''result'' \<mapsto> VStr (a_result a),
      ''risk_level'' \<mapsto> VStr (a_risk_level a),
      ''recommendations'' \<mapsto> VList (a_recommendations a),
      ''image_data'' \<mapsto> opt_str (a_image_data a),
      ''created_at'' \<mapsto> VDatetime (a_created_at a)]"

section \<open>Authentication\<close>

definition hash_password :: "env \<Rightarrow> string \<Rightarrow> string" where
  "hash_password env password = pwd_context_hash env password"

definition verify_password :: "env \<Rightarrow> string \<Rightarrow> string \<Rightarrow> bool" where
  "verify_password env plain_password hashed_password =
     pwd_context_verify env plain_password hashed_password"

definition create_token :: "env \<Rightarrow> string \<Rightarrow> string \<Rightarrow> string" where
  "create_token env user_id email =
     (let payload = [''user_id'' \<mapsto> VStr user_id,
                     ''email'' \<mapsto> VStr email,
                     ''exp'' \<mapsto> VDatetime (add_days env (now env) 7)]
      in jwt_encode env payload)"

text \<open>
  \<^verbatim>\<open>get_current_user\<close>: \<^verbatim>\<open>not user_id\<close> holds for a payload without the entry and
  for the empty text. The clause for the expired signature comes first, as in the source.
\<close>

definition get_current_user :: "env \<Rightarrow> string \<Rightarrow> error + string" where
  "get_current_user env token =
     (case jwt_decode env token of
        Decoded user_id \<Rightarrow>
          (case user_id of
             None \<Rightarrow> Inl (HTTPException 401 ''Invalid token'')
           | Some u \<Rightarrow> if u = [] then Inl (HTTPException 401 ''Invalid token'') else Inr u)
      | ExpiredSignatureError \<Rightarrow> Inl (HTTPException 401 ''Token expired'')
      | InvalidTokenError \<Rightarrow> Inl (HTTPException 401 ''Invalid token''))"

text \<open>
  \<^verbatim>\<open>Depends(get_current_user)\<close>: the framework runs the dependency first; when it
  raises, the handler is not run and the store is as before.
\<close>

definition Depends_get_current_user ::
  "env \<Rightarrow> string \<Rightarrow> db \<Rightarrow> (string \<Rightarrow> (error + 'a) \<times> db) \<Rightarrow> (error + 'a) \<times> db" where
  "Depends_get_current_user env token d handler =
     (case get_current_user env token of
        Inl e \<Rightarrow> (Inl e, d)
      | Inr user_id \<Rightarrow> handler user_id)"

text \<open>
  \<^verbatim>\<open>register\<close>. A document found by the query has an \<^verbatim>\<open>email\<close> field, so
  \<^verbatim>\<open>if existing_user\<close> holds exactly when one is found.
\<close>

definition register :: "env \<Rightarrow> db \<Rightarrow> string \<Rightarrow> string \<Rightarrow> string \<Rightarrow> (error + string \<times> doc) \<times> db" where
  "register env d email full_name password =
     (case find_one (''email'', VStr email) (users d) of
        Some existing_user \<Rightarrow> (Inl (HTTPException 400 ''Email already registered''), d)
      | None \<Rightarrow>
          (let user = \<lparr>u_id = uuid4 env, u_email = email, u_full_name = full_name,
                       u_created_at = now env\<rparr>;
               user_doc = model_dump_User user;
               user_doc = user_doc(''created_at'' \<mapsto> VStr (isoformat (u_created_at user)));
               user_doc = user_doc(''password'' \<mapsto> VStr (hash_password env password))
           in case insert_one env user_doc (users d) of
                Inl e \<Rightarrow> (Inl (Unhandled e), d)
              | Inr coll \<Rightarrow>
                  (let token = create_token env (u_id user) (u_email user)
                   in (Inr (token, model_dump_User user), d\<lparr>users := coll\<rparr>))))"

text \<open>
  \<^verbatim>\<open>login\<close>. A document found by the query is not empty, so \<^verbatim>\<open>not user_doc\<close>
  holds exactly when none is found. \<^verbatim>\<open>user_doc.get('password', '')\<close> is the empty
  text when the field is missing. Indexing a missing field, or building the
  \<^verbatim>\<open>User\<close> from a field of the wrong type or from a creation time that
  \<^verbatim>\<open>fromisoformat\<close> cannot read, raises, and nothing catches it.
\<close>

definition as_datetime :: "env \<Rightarrow> field \<Rightarrow> datetime option" where
  "as_datetime env v =
     (case v of
        VStr s \<Rightarrow> (case fromisoformat env s of Inl e \<Rightarrow> None | Inr t \<Rightarrow> Some t)
      | VDatetime t \<Rightarrow> Some t
      | _ \<Rightarrow> None)"

definition get_str :: "doc \<Rightarrow> string \<Rightarrow> string \<Rightarrow> string" where
  "get_str d k dflt = (case d k of Some (VStr s) \<Rightarrow> s | _ \<Rightarrow> dflt)"

definition login :: "env \<Rightarrow> db \<Rightarrow> string \<Rightarrow> string \<Rightarrow> error + string \<times> doc" where
  "login env d email password =
     (case find_one (''email'', VStr email) (users d) of
        None \<Rightarrow> Inl (HTTPException 401 ''Invalid credentials'')
      | Some user_doc \<Rightarrow>
          if \<not> verify_password env password (get_str user_doc ''password'' [])
          then Inl (HTTPException 401 ''Invalid credentials'')
          else (case (user_doc ''id'', user_doc ''email'', user_doc ''full_name'',
                      Option.bind (user_doc ''created_at'') (as_datetime env)) of
                  (Some (VStr uid), Some (VStr uemail), Some (VStr uname), Some created) \<Rightarrow>
                    (let token = create_token env uid uemail;
                         user = \<lparr>u_id = uid, u_email = uemail, u_full_name = uname,
                                 u_created_at = created\<rparr>
                     in Inr (token, model_dump_User user))
                | _ \<Rightarrow> Inl (Unhandled ''invalid user document'')))"

definition get_me :: "db \<Rightarrow> string \<Rightarrow> error + doc" where
  "get_me d user_id =
     (case find_one (''id'', VStr user_id) (users d) of
        None \<Rightarrow> Inl (HTTPException 404 ''User not found'')
      | Some user_doc \<Rightarrow> Inr (exclude {''password''} user_doc))"

section \<open>Medical history\<close>

definition create_medical_history ::
  "env \<Rightarrow> db \<Rightarrow> MedicalHistoryCreate \<Rightarrow> string \<Rightarrow> (error + doc) \<times> db" where
  "create_medical_history env d data user_id =
     (let coll = delete_many (''user_id'', VStr user_id) (medical_history d);
          history = \<lparr>age = age data, family_history = family_history data,
                     previous_biopsies = previous_biopsies data,
                     hormone_therapy = hormone_therapy data,
                     first_pregnancy_age = first_pregnancy_age data,
                     menstruation_age = menstruation_age data,
                     breast_density = breast_density data,
                     h_id = uuid4 env, h_user_id = user_id, h_created_at = now env\<rparr>;
          history_doc = model_dump_MedicalHistory history;
          history_doc = history_doc(''created_at'' \<mapsto> VStr (isoformat (h_created_at history)))
      in case insert_one env history_doc coll of
           Inl e \<Rightarrow> (Inl (Unhandled e), d\<lparr>medical_history := coll\<rparr>)
         | Inr coll' \<Rightarrow> (Inr (model_dump_MedicalHistory history), d\<lparr>medical_history := coll'\<rparr>))"

definition get_medical_history :: "db \<Rightarrow> string \<Rightarrow> doc option" where
  "get_medical_history d user_id = find_one (''user_id'', VStr user_id) (medical_history d)"

section \<open>Analyses\<close>

definition image_system_message :: string where
  "image_system_message =
     ''You are an AI medical assistant specialized in breast cancer detection. '' @
     ''Analyze mammogram images and provide detailed insights about potential abnormalities, '' @
     ''their characteristics, and recommendations. Always include a risk assessment '' @
     ''(low, moderate, or high) and actionable next steps.''"

definition image_user_message :: string where
  "image_user_message =
     ''Please analyze this mammogram image for any signs of abnormalities or potential '' @
     ''breast cancer indicators. Provide: 1) Detailed findings, 2) Risk level '' @
     ''(low/moderate/high), 3) Specific recommendations for next steps.''"

definition risk_system_message :: string where
  "risk_system_message =
     ''You are an AI medical assistant providing breast cancer risk assessments based on '' @
     ''patient history and demographics.''"

text \<open>
  The risk level \<^verbatim>\<open>analyze_image\<close> reads from the reply: \<^verbatim>\<open>ai_response.lower()\<close>,
  then the tests \<^verbatim>\<open>sub in response_lower\<close>, which are \<^const>\<open>sublist\<close>: \<open>sub\<close>
  occurs in the text as a contiguous run.
\<close>

definition extract_risk_level :: "env \<Rightarrow> string \<Rightarrow> string" where
  "extract_risk_level env ai_response =
     (let response_lower = str_lower env ai_response
      in if sublist ''high risk'' response_lower \<or> sublist ''high-risk'' response_lower then ''high''
         else if sublist ''moderate risk'' response_lower \<or> sublist ''moderate'' response_lower
           then ''moderate''
         else ''low'')"

text \<open>
  \<^verbatim>\<open>analyze_image\<close>. The whole body stands in one \<^verbatim>\<open>try\<close>; every exception is
  turned into \<^verbatim>\<open>HTTPException(500, "Error analyzing image: " + str(e))\<close>. The store at
  the moment of the exception is the store the request leaves behind.
\<close>

definition analyze_image :: "env \<Rightarrow> db \<Rightarrow> string \<Rightarrow> string \<Rightarrow> (error + doc) \<times> db" where
  "analyze_image env d contents user_id =
     (case reencode_png env contents of
        Inl e \<Rightarrow> (Inl (HTTPException 500 (''Error analyzing image: '' @ e)), d)
      | Inr png \<Rightarrow>
          (let img_base64 = b64encode env png
           in case send_message env image_system_message image_user_message (Some img_base64) of
                Inl e \<Rightarrow> (Inl (HTTPException 500 (''Error analyzing image: '' @ e)), d)
              | Inr ai_response \<Rightarrow>
                  (let risk_level = extract_risk_level env ai_response;
                       recommendations =
                         [''Consult with a healthcare professional'',
                          ''Schedule a follow-up examination'',
                          ''Maintain regular screening schedule''];
                       analysis = \<lparr>a_id = uuid4 env, a_user_id = user_id,
                                   a_analysis_type = ''image'', a_result = ai_response,
                                   a_risk_level = risk_level,
                                   a_recommendations = recommendations,
                                   a_image_data = Some (take 1000 img_base64),
                                   a_created_at = now env\<rparr>;
                       analysis_doc = model_dump_Analysis analysis;
                       analysis_doc =
                         analysis_doc(''created_at'' \<mapsto> VStr (isoformat (a_created_at analysis)))
                   in case insert_one env analysis_doc (analyses d) of
                        Inl e \<Rightarrow> (Inl (HTTPException 500 (''Error analyzing image: '' @ e)), d)
                      | Inr coll \<Rightarrow>
                          (Inr (exclude {''image_data''} (model_dump_Analysis analysis)),
                           d\<lparr>analyses := coll\<rparr>))))"

text \<open>
  \<^verbatim>\<open>risk_assessment\<close>. \<^verbatim>\<open>insert(0, ...)\<close> then \<^verbatim>\<open>insert(1, ...)\<close> put the two
  extra recommendations in front of the four fixed ones.
\<close>

definition risk_assessment ::
  "env \<Rightarrow> db \<Rightarrow> RiskAssessmentRequest \<Rightarrow> string \<Rightarrow> (error + doc) \<times> db" where
  "risk_assessment env d data user_id =
     (let risk_score = calculate_risk_score data;
          risk_level = determine_risk_level risk_score;
          prompt = risk_prompt data
      in case send_message env risk_system_message prompt None of
           Inl e \<Rightarrow> (Inl (HTTPException 500 (''Error in risk assessment: '' @ e)), d)
         | Inr ai_response \<Rightarrow>
             (let recommendations =
                    [''Schedule annual mammogram screening'',
                     ''Perform monthly self-examinations'',
                     ''Maintain a healthy lifestyle'',
                     ''Discuss results with your healthcare provider''];
                  recommendations =
                    (if risk_level = ''high''
                     then ''Consult with an oncologist immediately'' #
                          ''Consider genetic testing'' # recommendations
                     else recommendations);
                  analysis = \<lparr>a_id = uuid4 env, a_user_id = user_id,
                              a_analysis_type = ''risk_assessment'', a_result = ai_response,
                              a_risk_level = risk_level,
                              a_recommendations = recommendations,
                              a_image_data = None,
                              a_created_at = now env\<rparr>;
                  analysis_doc = model_dump_Analysis analysis;
                  analysis_doc =
                    analysis_doc(''created_at'' \<mapsto> VStr (isoformat (a_created_at analysis)))
              in case insert_one env analysis_doc (analyses d) of
                   Inl e \<Rightarrow> (Inl (HTTPException 500 (''Error in risk assessment: '' @ e)), d)
                 | Inr coll \<Rightarrow> (Inr (model_dump_Analysis analysis), d\<lparr>analyses := coll\<rparr>)))"

text \<open>
  \<^verbatim>\<open>get_analyses\<close>: the query, sorted by \<^verbatim>\<open>created_at\<close> descending, the first 100;
  then the loop over the records found, in their order. \<^verbatim>\<open>analysis['created_at']\<close>
  raises \<^verbatim>\<open>KeyError\<close> on a record without the field; a textual value is replaced by
  what \<^verbatim>\<open>fromisoformat\<close> reads, which may raise; any other value stays. Nothing
  catches either exception, and the first one ends the request.
\<close>

fun parse_created_at :: "env \<Rightarrow> doc list \<Rightarrow> error + doc list" where
  "parse_created_at env [] = Inr []"
| "parse_created_at env (analysis # rest) =
     (case analysis ''created_at'' of
        None \<Rightarrow> Inl (Unhandled ''KeyError: created_at'')
      | Some (VStr s) \<Rightarrow>
          (case fromisoformat env s of
             Inl e \<Rightarrow> Inl (Unhandled e)
           | Inr t \<Rightarrow>
               (case parse_created_at env rest of
                  Inl e \<Rightarrow> Inl e
                | Inr parsed \<Rightarrow> Inr (analysis(''created_at'' \<mapsto> VDatetime t) # parsed)))
      | Some v \<Rightarrow>
          (case parse_created_at env rest of
             Inl e \<Rightarrow> Inl e
           | Inr parsed \<Rightarrow> Inr (analysis # parsed)))"

definition get_analyses :: "env \<Rightarrow> db \<Rightarrow> string \<Rightarrow> error + doc list" where
  "get_analyses env d user_id =
     (let found = to_list 100
            (sort_desc ''created_at'' (find_docs (''user_id'', VStr user_id) (analyses d)))
      in parse_created_at env found)"

section \<open>Protected routes\<close>

text \<open>
  The six routes that declare \<^verbatim>\<open>user_id: str = Depends(get_current_user)\<close>, as functions
  of the bearer token.
\<close>

definition route_get_me :: "env \<Rightarrow> db \<Rightarrow> string \<Rightarrow> (error + doc) \<times> db" where
  "route_get_me env d token =
     Depends_get_current_user env token d (\<lambda>user_id. (get_me d user_id, d))"

definition route_create_medical_history ::
  "env \<Rightarrow> db \<Rightarrow> string \<Rightarrow> MedicalHistoryCreate \<Rightarrow> (error + doc) \<times> db" where
  "route_create_medical_history env d token data =
     Depends_get_current_user env token d (\<lambda>user_id. create_medical_history env d data user_id)"

definition route_get_medical_history ::
  "env \<Rightarrow> db \<Rightarrow> string \<Rightarrow> (error + doc option) \<times> db" where
  "route_get_medical_history env d token =
     Depends_get_current_user env token d (\<lambda>user_id. (Inr (get_medical_history d user_id), d))"

definition route_analyze_image :: "env \<Rightarrow> db \<Rightarrow> string \<Rightarrow> string \<Rightarrow> (error + doc) \<times> db" where
  "route_analyze_image env d token contents =
     Depends_get_current_user env token d (\<lambda>user_id. analyze_image env d contents user_id)"

definition route_risk_assessment ::
  "env \<Rightarrow> db \<Rightarrow> string \<Rightarrow> RiskAssessmentRequest \<Rightarrow> (error + doc) \<times> db" where
  "route_risk_assessment env d token data =
     Depends_get_current_user env token d (\<lambda>user_id. risk_assessment env d data user_id)"

definition route_get_analyses :: "env \<Rightarrow> db \<Rightarrow> string \<Rightarrow> (error + doc list) \<times> db" where
  "route_get_analyses env d token =
     Depends_get_current_user env token d (\<lambda>user_id. (get_analyses env d user_id, d))"

section \<open>The invariant of the medical profile store\<close>

text \<open>
  The specification's invariant on the collection of medical histories, and a sequence of
  create requests, each with its own collaborators, run one after the other.
\<close>

definition at_most_one_per_user :: "doc list \<Rightarrow> bool" where
  "at_most_one_per_user coll \<longleftrightarrow>
     (\<forall>user_id. length (filter (\<lambda>doc. doc ''user_id'' = Some (VStr user_id)) coll) \<le> 1)"

fun create_all :: "(env \<times> MedicalHistoryCreate \<times> string) list \<Rightarrow> db \<Rightarrow> db" where
  "create_all [] d = d"
| "create_all ((env, data, user_id) # requests) d =
     create_all requests (snd (create_medical_history env d data user_id))"

section \<open>The prompt as the specification words it\<close>

text \<open>
  The specification says of the prompt that a missing optional field is rendered as a
  fixed placeholder, and a present one as its value. This is that reading, to be compared
  with \<^const>\<open>risk_prompt\<close>.
\<close>

definition prompt_as_claimed :: "RiskAssessmentRequest \<Rightarrow> string" where
  "prompt_as_claimed data =
     ''Based on the following patient information, provide a detailed breast cancer risk assessment:\<newline>'' @
     ''        \<newline>'' @
     ''Age: '' @ str_int (age data) @ ''\<newline>'' @
     ''Family History: '' @ yes_no (family_history data) @ ''\<newline>'' @
     ''Previous Biopsies: '' @ yes_no (previous_biopsies data) @ ''\<newline>'' @
     ''Hormone Therapy: '' @ yes_no (hormone_therapy data) @ ''\<newline>'' @
     ''First Pregnancy Age: '' @
       (case first_pregnancy_age data of None \<Rightarrow> ''N/A'' | Some i \<Rightarrow> str_int i) @ ''\<newline>'' @
     ''Menstruation Start Age: '' @
       (case menstruation_age data of None \<Rightarrow> ''N/A'' | Some i \<Rightarrow> str_int i) @ ''\<newline>'' @
     ''Breast Density: '' @
       (case breast_density data of None \<Rightarrow> ''N/A'' | Some s \<Rightarrow> s) @ ''\<newline>'' @
     ''\<newline>'' @
     ''Provide a comprehensive risk analysis with specific recommendations.''"

section \<open>Sample inputs\<close>

text \<open>
  Concrete inputs for the instances below: the request of the repository's own test
  (\<^verbatim>\<open>test_risk_assessment\<close> in \<^verbatim>\<open>backend_test.py\<close>), and collaborators that answer
  in a fixed way.
\<close>

text \<open>
  A lowering of the letters A to Z, and a reader of the texts \<^const>\<open>isoformat\<close> writes,
  which takes the fields at their fixed positions and refuses a text of another length.
  They are what the sample collaborators do, not what Python's library does on every
  text.
\<close>

definition ascii_lower_char :: "char \<Rightarrow> char" where
  "ascii_lower_char c =
     (case map_of (zip ''ABCDEFGHIJKLMNOPQRSTUVWXYZ'' ''abcdefghijklmnopqrstuvwxyz'') c of
        Some l \<Rightarrow> l
      | None \<Rightarrow> c)"

definition ascii_lower :: "string \<Rightarrow> string" where
  "ascii_lower s = map ascii_lower_char s"

definition digit_val :: "char \<Rightarrow> nat" where
  "digit_val c = of_char c - 48"

definition parse_nat :: "string \<Rightarrow> nat" where
  "parse_nat s = foldl (\<lambda>a c. 10 * a + digit_val c) 0 s"

definition read_isoformat :: "string \<Rightarrow> datetime" where
  "read_isoformat s =
     \<lparr>year = parse_nat (take 4 s),
      month = parse_nat (take 2 (drop 5 s)),
      day = parse_nat (take 2 (drop 8 s)),
      hour = parse_nat (take 2 (drop 11 s)),
      minute = parse_nat (take 2 (drop 14 s)),
      second = parse_nat (take 2 (drop 17 s)),
      microsecond = (if take 1 (drop 19 s) = ''.'' then parse_nat (take 6 (drop 20 s)) else 0)\<rparr>"

definition sample_fromisoformat :: "string \<Rightarrow> string + datetime" where
  "sample_fromisoformat s =
     (if length s = 25 \<or> length s = 32 then Inr (read_isoformat s)
      else Inl (''Invalid isoformat string: '' @ s))"

definition sample_request :: RiskAssessmentRequest where
  "sample_request =
     \<lparr>age = 45, family_history = True, previous_biopsies = False, hormone_therapy = True,
      first_pregnancy_age = Some 25, menstruation_age = Some 12, breast_density = Some ''dense''\<rparr>"

definition sample_env :: env where
  "sample_env =
     \<lparr>uuid4 = ''id-1'',
      now = \<lparr>year = 2024, month = 5, day = 17, hour = 9, minute = 30, second = 0,
             microsecond = 250\<rparr>,
      pwd_context_hash = (\<lambda>p. ''hash:'' @ p),
      pwd_context_verify = (\<lambda>p h. h = ''hash:'' @ p),
      jwt_encode = (\<lambda>payload. ''signed'' @ get_str payload ''user_id'' []),
      jwt_decode = (\<lambda>t. if take 6 t = ''signed'' then Decoded (Some (drop 6 t))
                         else if t = ''old'' then ExpiredSignatureError else InvalidTokenError),
      add_days = (\<lambda>t n. t\<lparr>day := day t + n\<rparr>),
      reencode_png = (\<lambda>c. if c = [] then Inl ''cannot identify image file'' else Inr c),
      b64encode = (\<lambda>b. b),
      send_message = (\<lambda>s t i. Inr ''Findings suggest a moderate risk.''),
      insert_error = (\<lambda>d. None),
      str_lower = ascii_lower,
      fromisoformat = sample_fromisoformat\<rparr>"

definition empty_db :: db where
  "empty_db = \<lparr>users = [], medical_history = [], analyses = []\<rparr>"

definition one_user_db :: db where
  "one_user_db = snd (register sample_env empty_db ''ann@example.com'' ''Ann'' ''secret'')"



section \<open>The ISO texts of the sample clock readings\<close>

lemma isoformat_examples:
  "isoformat \<lparr>year = 2024, month = 5, day = 17, hour = 9, minute = 30, second = 0,
     microsecond = 250\<rparr> = ''2024-05-17T09:30:00.000250+00:00''"
  "isoformat \<lparr>year = 2024, month = 5, day = 17, hour = 9, minute = 30, second = 2,
     microsecond = 0\<rparr> = ''2024-05-17T09:30:02+00:00''"
  by code_simp+

section \<open>Outcomes of the two handlers that call the language model\<close>

lemma analyze_image_success:
  assumes "analyze_image env d contents user_id = (Inr response, d')"
  shows "\<exists>png reply analysis.
     reencode_png env contents = Inr png \<and>
     send_message env image_system_message image_user_message (Some (b64encode env png))
       = Inr reply \<and>
     analysis = \<lparr>a_id = uuid4 env, a_user_id = user_id, a_analysis_type = ''image'',
                 a_result = reply, a_risk_level = extract_risk_level env reply,
                 a_recommendations =
                   [''Consult with a healthcare professional'',
                    ''Schedule a follow-up examination'',
                    ''Maintain regular screening schedule''],
                 a_image_data = Some (take 1000 (b64encode env png)),
                 a_created_at = now env\<rparr> \<and>
     response = exclude {''image_data''} (model_dump_Analysis analysis) \<and>
     d' = d\<lparr>analyses := analyses d @
            [(model_dump_Analysis analysis)(''created_at'' \<mapsto> VStr (isoformat (now env)))]\<rparr>"
proof (cases "reencode_png env contents")
  case (Inl e)
  with assms show ?thesis by (simp add: analyze_image_def)
next
  case png: (Inr png)
  show ?thesis
  proof (cases "send_message env image_system_message image_user_message
      (Some (b64encode env png))")
    case (Inl e)
    with assms png show ?thesis by (simp add: analyze_image_def)
  next
    case reply: (Inr reply)
    with assms png show ?thesis
      by (simp add: analyze_image_def Let_def insert_one_def split: option.splits)
  qed
qed


lemma exclude_apply: "exclude ks m k = (if k \<in> ks then None else m k)"
  by (simp add: exclude_def restrict_map_def)


lemma analyze_image_Inl:
  "analyze_image env d contents user_id = (Inl err, d') \<Longrightarrow>
     d' = d \<and> (\<exists>m. err = HTTPException 500 (''Error analyzing image: '' @ m) \<and>
          (reencode_png env contents = Inl m \<or>
           (\<exists>p. reencode_png env contents = Inr p \<and>
              (send_message env image_system_message image_user_message
                 (Some (b64encode env p)) = Inl m \<or>
               (\<exists>doc. insert_error env doc = Some m)))))"
  by (auto simp: analyze_image_def Let_def insert_one_def split: sum.splits option.splits)

lemma analyze_image_Inr:
  "analyze_image env d contents user_id = (Inr r, d') \<Longrightarrow>
     \<exists>doc. d' = d\<lparr>analyses := analyses d @ [doc]\<rparr>"
  by (auto simp: analyze_image_def Let_def insert_one_def split: sum.splits option.splits)

lemma risk_assessment_Inl:
  "risk_assessment env d data user_id = (Inl err, d') \<Longrightarrow>
     d' = d \<and> (\<exists>m. err = HTTPException 500 (''Error in risk assessment: '' @ m) \<and>
          (send_message env risk_system_message (risk_prompt data) None = Inl m \<or>
           (\<exists>doc. insert_error env doc = Some m)))"
  by (auto simp: risk_assessment_def Let_def insert_one_def split: sum.splits option.splits)

lemma risk_assessment_Inr:
  "risk_assessment env d data user_id = (Inr r, d') \<Longrightarrow>
     \<exists>doc. d' = d\<lparr>analyses := analyses d @ [doc]\<rparr>"
  by (auto simp: risk_assessment_def Let_def insert_one_def split: sum.splits option.splits)

lemma persisted_iff_success:
  assumes inl: "\<And>err d'. X = (Inl err, d') \<Longrightarrow> d' = d"
    and inr: "\<And>r d'. X = (Inr r, d') \<Longrightarrow> \<exists>doc. d' = d\<lparr>analyses := analyses d @ [doc]\<rparr>"
  shows "(\<exists>doc. analyses (snd X) = analyses d @ [doc]) \<longleftrightarrow> (\<exists>r. fst X = Inr r)"
proof (cases X)
  case (Pair res d')
  show ?thesis
  proof (cases res)
    case (Inl err)
    with Pair inl have "d' = d" by simp
    with Pair Inl show ?thesis by simp
  next
    case (Inr r)
    with Pair inr obtain doc where "d' = d\<lparr>analyses := analyses d @ [doc]\<rparr>" by blast
    with Pair Inr show ?thesis by simp
  qed
qed

section \<open>The risk score\<close>

text \<open>
  Claim C1. For every risk-assessment input the score is the sum of the schedule: the age
  adds 3 above 50, else 2 above 40, else 1 above 30, else 0 (one bracket only); family
  history adds 4, previous biopsies 3, hormone therapy 2, and a breast density equal to
  \<open>dense\<close> adds 2. The level is \<open>high\<close> iff the score is at least 8, \<open>moderate\<close> iff it
  is at least 4 and below 8, \<open>low\<close> iff it is below 4; and it is the level a successful
  \<^verbatim>\<open>risk_assessment\<close> returns.
\<close>

theorem risk_score_schedule:
  "calculate_risk_score data =
     (if age data > 50 then 3 else if 40 < age data \<and> age data \<le> 50 then 2
      else if 30 < age data \<and> age data \<le> 40 then 1 else 0)
     + (if family_history data then 4 else 0)
     + (if previous_biopsies data then 3 else 0)
     + (if hormone_therapy data then 2 else 0)
     + (if breast_density data = Some ''dense'' then 2 else 0)
   \<and> (determine_risk_level (calculate_risk_score data) = ''high''
        \<longleftrightarrow> calculate_risk_score data \<ge> 8)
   \<and> (determine_risk_level (calculate_risk_score data) = ''moderate''
        \<longleftrightarrow> 4 \<le> calculate_risk_score data \<and> calculate_risk_score data < 8)
   \<and> (determine_risk_level (calculate_risk_score data) = ''low''
        \<longleftrightarrow> calculate_risk_score data < 4)
   \<and> (risk_assessment env d data user_id = (Inr response, d') \<longrightarrow>
        response ''risk_level'' = Some (VStr (determine_risk_level (calculate_risk_score data))))"
proof -
  have score: "calculate_risk_score data =
     (if age data > 50 then 3 else if 40 < age data \<and> age data \<le> 50 then 2
      else if 30 < age data \<and> age data \<le> 40 then 1 else 0)
     + (if family_history data then 4 else 0)
     + (if previous_biopsies data then 3 else 0)
     + (if hormone_therapy data then 2 else 0)
     + (if breast_density data = Some ''dense'' then 2 else 0)"
    by (simp add: calculate_risk_score_def Let_def)
  have level: "\<And>s. (determine_risk_level s = ''high'' \<longleftrightarrow> s \<ge> 8) \<and>
      (determine_risk_level s = ''moderate'' \<longleftrightarrow> 4 \<le> s \<and> s < 8) \<and>
      (determine_risk_level s = ''low'' \<longleftrightarrow> s < 4)"
    by (simp add: determine_risk_level_def)
  have returned: "risk_assessment env d data user_id = (Inr response, d') \<longrightarrow>
        response ''risk_level'' = Some (VStr (determine_risk_level (calculate_risk_score data)))"
    by (auto simp: risk_assessment_def Let_def insert_one_def model_dump_Analysis_def
        split: sum.splits option.splits)
  from score level [of "calculate_risk_score data"] returned show ?thesis
    by blast
qed

theorem risk_score_schedule_witness:
  "\<exists>response d'. risk_assessment sample_env empty_db sample_request ''u1'' = (Inr response, d')
     \<and> response ''risk_level'' = Some (VStr ''high'')
     \<and> calculate_risk_score sample_request = 10"
  using risk_score_schedule [of sample_request sample_env empty_db "''u1''"]
  by (simp add: risk_assessment_def sample_env_def empty_db_def sample_request_def
      insert_one_def Let_def calculate_risk_score_def determine_risk_level_def)

text \<open>
  Claim C7. For every input, and so for every age, setting one of the risk factors (family
  history, previous biopsies, hormone therapy) from absent to present, or the breast
  density to \<open>dense\<close>, never lowers the score.
\<close>

theorem risk_score_monotonic:
  "calculate_risk_score (data\<lparr>family_history := False\<rparr>)
     \<le> calculate_risk_score (data\<lparr>family_history := True\<rparr>)
   \<and> calculate_risk_score (data\<lparr>previous_biopsies := False\<rparr>)
     \<le> calculate_risk_score (data\<lparr>previous_biopsies := True\<rparr>)
   \<and> calculate_risk_score (data\<lparr>hormone_therapy := False\<rparr>)
     \<le> calculate_risk_score (data\<lparr>hormone_therapy := True\<rparr>)
   \<and> calculate_risk_score data
     \<le> calculate_risk_score (data\<lparr>breast_density := Some ''dense''\<rparr>)"
  by (simp add: calculate_risk_score_def Let_def)

text \<open>
  Claim C10. The breast density adds 2 to the score exactly when it is the text
  \<open>dense\<close>, in lower case; \<open>Dense\<close>, \<open>DENSE\<close>, another category or no value add
  nothing.
\<close>

theorem density_bonus_exact:
  "calculate_risk_score data =
     calculate_risk_score (data\<lparr>breast_density := None\<rparr>)
     + (if breast_density data = Some ''dense'' then 2 else 0)
   \<and> calculate_risk_score (data\<lparr>breast_density := Some ''Dense''\<rparr>)
       = calculate_risk_score (data\<lparr>breast_density := None\<rparr>)
   \<and> calculate_risk_score (data\<lparr>breast_density := Some ''DENSE''\<rparr>)
       = calculate_risk_score (data\<lparr>breast_density := None\<rparr>)
   \<and> calculate_risk_score (data\<lparr>breast_density := Some ''normal''\<rparr>)
       = calculate_risk_score (data\<lparr>breast_density := None\<rparr>)
   \<and> calculate_risk_score (data\<lparr>breast_density := Some ''dense''\<rparr>)
       = calculate_risk_score (data\<lparr>breast_density := None\<rparr>) + 2"
  by (simp add: calculate_risk_score_def Let_def)

section \<open>The risk level of an image analysis\<close>

lemma sublist_moderate: "sublist ''moderate risk'' s \<Longrightarrow> sublist ''moderate'' s"
proof -
  assume a: "sublist ''moderate risk'' s"
  have "sublist ''moderate'' (''moderate'' @ '' risk'')"
    by (rule sublist_append_rightI)
  then have "sublist ''moderate'' ''moderate risk''" by simp
  from this a show ?thesis by (rule sublist_order.order_trans)
qed

lemma extract_examples:
  "extract_risk_level sample_env ''Findings suggest a moderate risk.'' = ''moderate''"
  "extract_risk_level sample_env ''Findings: HIGH-RISK lesion'' = ''high''"
  "extract_risk_level sample_env ''High Risk of malignancy; moderate density'' = ''high''"
  "extract_risk_level sample_env ''Moderate concern'' = ''moderate''"
  "extract_risk_level sample_env ''MODERATE concern'' = ''moderate''"
  "extract_risk_level sample_env ''No abnormality seen'' = ''low''"
  "str_lower sample_env ''Moderate concern'' = ''moderate concern''"
  "str_lower sample_env ''MODERATE concern'' = ''moderate concern''"
  by code_simp+

text \<open>
  Claim C6. The level \<^verbatim>\<open>analyze_image\<close> derives from the reply of the language model
  is a scan of the reply as \<^verbatim>\<open>str.lower\<close> gives it, whatever that function does to
  the letters: \<open>high\<close> if the lowered reply contains \<open>high risk\<close> or \<open>high-risk\<close>,
  otherwise \<open>moderate\<close> if it contains \<open>moderate\<close>, otherwise \<open>low\<close>. It is always one
  of the three, two replies with the same lowered text get the same level, and it is the
  level a successful request returns.
\<close>

theorem extract_risk_level_scan:
  "extract_risk_level env ai_response =
     (if sublist ''high risk'' (str_lower env ai_response) \<or>
         sublist ''high-risk'' (str_lower env ai_response)
      then ''high''
      else if sublist ''moderate'' (str_lower env ai_response) then ''moderate''
      else ''low'')
   \<and> extract_risk_level env ai_response \<in> {''high'', ''moderate'', ''low''}
   \<and> (str_lower env ai_response = str_lower env other_response \<longrightarrow>
        extract_risk_level env ai_response = extract_risk_level env other_response)
   \<and> (analyze_image env d contents user_id = (Inr response, d') \<longrightarrow>
        (\<exists>png reply.
           reencode_png env contents = Inr png \<and>
           send_message env image_system_message image_user_message (Some (b64encode env png))
             = Inr reply \<and>
           response ''risk_level'' = Some (VStr (extract_risk_level env reply))))"
proof -
  have scan: "extract_risk_level env ai_response =
     (if sublist ''high risk'' (str_lower env ai_response) \<or>
         sublist ''high-risk'' (str_lower env ai_response)
      then ''high''
      else if sublist ''moderate'' (str_lower env ai_response) then ''moderate''
      else ''low'')"
    using sublist_moderate [of "str_lower env ai_response"]
    by (auto simp: extract_risk_level_def Let_def)
  have three: "extract_risk_level env ai_response \<in> {''high'', ''moderate'', ''low''}"
    by (simp add: extract_risk_level_def Let_def)
  have same: "str_lower env ai_response = str_lower env other_response \<longrightarrow>
        extract_risk_level env ai_response = extract_risk_level env other_response"
    by (simp add: extract_risk_level_def Let_def)
  have used: "analyze_image env d contents user_id = (Inr response, d') \<longrightarrow>
        (\<exists>png reply.
           reencode_png env contents = Inr png \<and>
           send_message env image_system_message image_user_message (Some (b64encode env png))
             = Inr reply \<and>
           response ''risk_level'' = Some (VStr (extract_risk_level env reply)))"
  proof
    assume "analyze_image env d contents user_id = (Inr response, d')"
    from analyze_image_success [OF this] obtain png reply analysis where
      png: "reencode_png env contents = Inr png"
      and reply: "send_message env image_system_message image_user_message
          (Some (b64encode env png)) = Inr reply"
      and A: "analysis = \<lparr>a_id = uuid4 env, a_user_id = user_id, a_analysis_type = ''image'',
                 a_result = reply, a_risk_level = extract_risk_level env reply,
                 a_recommendations =
                   [''Consult with a healthcare professional'',
                    ''Schedule a follow-up examination'',
                    ''Maintain regular screening schedule''],
                 a_image_data = Some (take 1000 (b64encode env png)),
                 a_created_at = now env\<rparr>"
      and resp: "response = exclude {''image_data''} (model_dump_Analysis analysis)"
      by blast
    have "a_risk_level analysis = extract_risk_level env reply"
      by (simp only: A Analysis.simps)
    then have "response ''risk_level'' = Some (VStr (extract_risk_level env reply))"
      by (simp add: resp exclude_apply model_dump_Analysis_def)
    with png reply show "\<exists>png reply.
           reencode_png env contents = Inr png \<and>
           send_message env image_system_message image_user_message (Some (b64encode env png))
             = Inr reply \<and>
           response ''risk_level'' = Some (VStr (extract_risk_level env reply))"
      by blast
  qed
  from scan three same used show ?thesis by (intro conjI)
qed

theorem extract_risk_level_scan_witness:
  "(\<exists>response d'. analyze_image sample_env empty_db ''image-bytes'' ''u1'' = (Inr response, d')
      \<and> response ''risk_level'' = Some (VStr ''moderate''))
   \<and> extract_risk_level sample_env ''Moderate concern'' = ''moderate''
   \<and> extract_risk_level sample_env ''MODERATE concern'' = ''moderate''
   \<and> extract_risk_level sample_env ''Findings: HIGH-RISK lesion'' = ''high''
   \<and> extract_risk_level sample_env ''High Risk of malignancy; moderate density'' = ''high''
   \<and> extract_risk_level sample_env ''No abnormality seen'' = ''low''"
proof -
  let ?X = "analyze_image sample_env empty_db ''image-bytes'' ''u1''"
  note T = extract_risk_level_scan [where env = sample_env and d = empty_db
      and contents = "''image-bytes''" and user_id = "''u1''"
      and ai_response = "''Moderate concern''" and other_response = "''MODERATE concern''"]
  have "\<exists>r. fst ?X = Inr r"
    by (simp add: analyze_image_def sample_env_def insert_one_def Let_def)
  then obtain response where "fst ?X = Inr response" ..
  then have h: "?X = (Inr response, snd ?X)"
    by (simp add: prod_eq_iff)
  from T [THEN conjunct2, THEN conjunct2, THEN conjunct2, THEN mp, OF h]
  obtain png reply where
    r: "send_message sample_env image_system_message image_user_message
          (Some (b64encode sample_env png)) = Inr reply"
      "response ''risk_level'' = Some (VStr (extract_risk_level sample_env reply))"
    by (elim exE conjE) (rule that, assumption+)
  from r(1) have "reply = ''Findings suggest a moderate risk.''"
    by (simp add: sample_env_def)
  with r(2) have "response ''risk_level'' = Some (VStr ''moderate'')"
    by (simp add: extract_examples)
  with h have 1: "\<exists>response d'. ?X = (Inr response, d')
      \<and> response ''risk_level'' = Some (VStr ''moderate'')"
    by (intro exI [of _ response] exI [of _ "snd ?X"] conjI)
  have same: "str_lower sample_env ''Moderate concern'' = str_lower sample_env ''MODERATE concern''"
    by (simp only: extract_examples)
  have 2: "extract_risk_level sample_env ''Moderate concern'' = ''moderate''"
    by (rule extract_examples)
  from T [THEN conjunct2, THEN conjunct2, THEN conjunct1, THEN mp, OF same] 2
  have 3: "extract_risk_level sample_env ''MODERATE concern'' = ''moderate''"
    by simp
  from 1 2 3 show ?thesis
    by (simp add: extract_examples)
qed

section \<open>The prompt of the risk assessment\<close>

text \<open>
  Claim C9, as stated, fails: an optional field that is present but falsy (the age 0, the
  empty density) is rendered as the placeholder too. Here the menstruation age 0 is
  rendered as \<open>N/A\<close>.
\<close>

theorem prompt_placeholder_counterexample:
  "risk_prompt (sample_request\<lparr>menstruation_age := Some 0\<rparr>) =
     ''Based on the following patient information, provide a detailed breast cancer risk assessment:\<newline>'' @
     ''        \<newline>'' @
     ''Age: 45\<newline>'' @
     ''Family History: Yes\<newline>'' @
     ''Previous Biopsies: No\<newline>'' @
     ''Hormone Therapy: Yes\<newline>'' @
     ''First Pregnancy Age: 25\<newline>'' @
     ''Menstruation Start Age: N/A\<newline>'' @
     ''Breast Density: dense\<newline>'' @
     ''\<newline>'' @
     ''Provide a comprehensive risk analysis with specific recommendations.''
   \<and> risk_prompt (sample_request\<lparr>menstruation_age := Some 0\<rparr>)
       \<noteq> prompt_as_claimed (sample_request\<lparr>menstruation_age := Some 0\<rparr>)"
  by (simp add: risk_prompt_def prompt_as_claimed_def sample_request_def or_NA_int_def
      or_NA_str_def yes_no_def str_int_def str_nat.simps digit_char_def)

text \<open>
  Claim C9, amended. The prompt embeds every input field: the age in decimal, the three
  flags as \<open>Yes\<close> or \<open>No\<close>, and each optional field as the placeholder \<open>N/A\<close> exactly
  when it is missing or falsy (the integer 0, the empty text), as its value otherwise. So
  the prompt is the one the specification words whenever no optional field is 0 or empty,
  and in particular when all three are missing.
\<close>

theorem prompt_placeholder_amended:
  "risk_prompt data =
     ''Based on the following patient information, provide a detailed breast cancer risk assessment:\<newline>'' @
     ''        \<newline>'' @
     ''Age: '' @ str_int (age data) @ ''\<newline>'' @
     ''Family History: '' @ (if family_history data then ''Yes'' else ''No'') @ ''\<newline>'' @
     ''Previous Biopsies: '' @ (if previous_biopsies data then ''Yes'' else ''No'') @ ''\<newline>'' @
     ''Hormone Therapy: '' @ (if hormone_therapy data then ''Yes'' else ''No'') @ ''\<newline>'' @
     ''First Pregnancy Age: '' @
       (if first_pregnancy_age data = None \<or> first_pregnancy_age data = Some 0 then ''N/A''
        else str_int (the (first_pregnancy_age data))) @ ''\<newline>'' @
     ''Menstruation Start Age: '' @
       (if menstruation_age data = None \<or> menstruation_age data = Some 0 then ''N/A''
        else str_int (the (menstruation_age data))) @ ''\<newline>'' @
     ''Breast Density: '' @
       (if breast_density data = None \<or> breast_density data = Some [] then ''N/A''
        else the (breast_density data)) @ ''\<newline>'' @
     ''\<newline>'' @
     ''Provide a comprehensive risk analysis with specific recommendations.''
   \<and> (first_pregnancy_age data \<noteq> Some 0 \<and> menstruation_age data \<noteq> Some 0 \<and>
      breast_density data \<noteq> Some [] \<longrightarrow> risk_prompt data = prompt_as_claimed data)
   \<and> risk_prompt (data\<lparr>first_pregnancy_age := None, menstruation_age := None,
        breast_density := None\<rparr>) =
      prompt_as_claimed (data\<lparr>first_pregnancy_age := None, menstruation_age := None,
        breast_density := None\<rparr>)"
  by (auto simp: risk_prompt_def prompt_as_claimed_def or_NA_int_def or_NA_str_def yes_no_def
      split: option.splits)

theorem prompt_placeholder_amended_witness:
  "first_pregnancy_age sample_request \<noteq> Some 0 \<and> menstruation_age sample_request \<noteq> Some 0 \<and>
   breast_density sample_request \<noteq> Some [] \<and>
   risk_prompt sample_request = prompt_as_claimed sample_request"
  using prompt_placeholder_amended [of sample_request, THEN conjunct2, THEN conjunct1]
  by (simp add: sample_request_def)

section \<open>Failure of the language model or of the store\<close>

text \<open>
  Claim C5. When the call of the language model fails during \<^verbatim>\<open>analyze_image\<close> or
  \<^verbatim>\<open>risk_assessment\<close>, or the insertion after it, the request answers with the status
  500 and a detail that ends with the text of the exception, and the store is as it was
  before the request. Every failure of the two handlers is of this form, its detail
  carrying the text of the step that raised (the decoding of the image, the language
  model or the insertion), and a record is added to the analyses exactly when the request
  succeeds.
\<close>

theorem ai_failure_not_persisted:
  "(reencode_png env contents = Inr png \<and>
    send_message env image_system_message image_user_message (Some (b64encode env png)) = Inl e
      \<longrightarrow> analyze_image env d contents user_id
            = (Inl (HTTPException 500 (''Error analyzing image: '' @ e)), d))
   \<and> (reencode_png env contents = Inr png \<and>
      send_message env image_system_message image_user_message (Some (b64encode env png))
        = Inr reply \<and>
      (\<forall>doc. insert_error env doc = Some e)
      \<longrightarrow> analyze_image env d contents user_id
            = (Inl (HTTPException 500 (''Error analyzing image: '' @ e)), d))
   \<and> (send_message env risk_system_message (risk_prompt data) None = Inl e
      \<longrightarrow> risk_assessment env d data user_id
            = (Inl (HTTPException 500 (''Error in risk assessment: '' @ e)), d))
   \<and> (send_message env risk_system_message (risk_prompt data) None = Inr reply \<and>
      (\<forall>doc. insert_error env doc = Some e)
      \<longrightarrow> risk_assessment env d data user_id
            = (Inl (HTTPException 500 (''Error in risk assessment: '' @ e)), d))
   \<and> (\<forall>err d'. analyze_image env d contents user_id = (Inl err, d') \<longrightarrow>
        d' = d \<and> (\<exists>m. err = HTTPException 500 (''Error analyzing image: '' @ m) \<and>
          (reencode_png env contents = Inl m \<or>
           (\<exists>p. reencode_png env contents = Inr p \<and>
              (send_message env image_system_message image_user_message
                 (Some (b64encode env p)) = Inl m \<or>
               (\<exists>doc. insert_error env doc = Some m))))))
   \<and> (\<forall>err d'. risk_assessment env d data user_id = (Inl err, d') \<longrightarrow>
        d' = d \<and> (\<exists>m. err = HTTPException 500 (''Error in risk assessment: '' @ m) \<and>
          (send_message env risk_system_message (risk_prompt data) None = Inl m \<or>
           (\<exists>doc. insert_error env doc = Some m))))
   \<and> ((\<exists>doc. analyses (snd (analyze_image env d contents user_id)) = analyses d @ [doc])
        \<longleftrightarrow> (\<exists>r. fst (analyze_image env d contents user_id) = Inr r))
   \<and> ((\<exists>doc. analyses (snd (risk_assessment env d data user_id)) = analyses d @ [doc])
        \<longleftrightarrow> (\<exists>r. fst (risk_assessment env d data user_id) = Inr r))"
proof -
  have a1: "reencode_png env contents = Inr png \<and>
    send_message env image_system_message image_user_message (Some (b64encode env png)) = Inl e
      \<longrightarrow> analyze_image env d contents user_id
            = (Inl (HTTPException 500 (''Error analyzing image: '' @ e)), d)"
    by (simp add: analyze_image_def)
  have a2: "reencode_png env contents = Inr png \<and>
      send_message env image_system_message image_user_message (Some (b64encode env png))
        = Inr reply \<and>
      (\<forall>doc. insert_error env doc = Some e)
      \<longrightarrow> analyze_image env d contents user_id
            = (Inl (HTTPException 500 (''Error analyzing image: '' @ e)), d)"
    by (simp add: analyze_image_def Let_def insert_one_def)
  have r1: "send_message env risk_system_message (risk_prompt data) None = Inl e
      \<longrightarrow> risk_assessment env d data user_id
            = (Inl (HTTPException 500 (''Error in risk assessment: '' @ e)), d)"
    by (simp add: risk_assessment_def Let_def)
  have r2: "send_message env risk_system_message (risk_prompt data) None = Inr reply \<and>
      (\<forall>doc. insert_error env doc = Some e)
      \<longrightarrow> risk_assessment env d data user_id
            = (Inl (HTTPException 500 (''Error in risk assessment: '' @ e)), d)"
    by (simp add: risk_assessment_def Let_def insert_one_def)
  have a3: "\<forall>err d'. analyze_image env d contents user_id = (Inl err, d') \<longrightarrow>
        d' = d \<and> (\<exists>m. err = HTTPException 500 (''Error analyzing image: '' @ m) \<and>
          (reencode_png env contents = Inl m \<or>
           (\<exists>p. reencode_png env contents = Inr p \<and>
              (send_message env image_system_message image_user_message
                 (Some (b64encode env p)) = Inl m \<or>
               (\<exists>doc. insert_error env doc = Some m)))))"
    using analyze_image_Inl by blast
  have r3: "\<forall>err d'. risk_assessment env d data user_id = (Inl err, d') \<longrightarrow>
        d' = d \<and> (\<exists>m. err = HTTPException 500 (''Error in risk assessment: '' @ m) \<and>
          (send_message env risk_system_message (risk_prompt data) None = Inl m \<or>
           (\<exists>doc. insert_error env doc = Some m)))"
    using risk_assessment_Inl by blast
  have a4: "(\<exists>doc. analyses (snd (analyze_image env d contents user_id)) = analyses d @ [doc])
        \<longleftrightarrow> (\<exists>r. fst (analyze_image env d contents user_id) = Inr r)"
    by (rule persisted_iff_success) (use analyze_image_Inl analyze_image_Inr in blast)+
  have r4: "(\<exists>doc. analyses (snd (risk_assessment env d data user_id)) = analyses d @ [doc])
        \<longleftrightarrow> (\<exists>r. fst (risk_assessment env d data user_id) = Inr r)"
    by (rule persisted_iff_success) (use risk_assessment_Inl risk_assessment_Inr in blast)+
  from a1 a2 r1 r2 a3 r3 a4 r4 show ?thesis by (intro conjI)
qed


theorem ai_failure_not_persisted_witness:
  "analyze_image (sample_env\<lparr>send_message := (\<lambda>s t i. Inl ''upstream timeout'')\<rparr>)
      empty_db ''image-bytes'' ''u1''
     = (Inl (HTTPException 500 ''Error analyzing image: upstream timeout''), empty_db)
   \<and> analyze_image (sample_env\<lparr>insert_error := (\<lambda>doc. Some ''connection reset'')\<rparr>)
      empty_db ''image-bytes'' ''u1''
     = (Inl (HTTPException 500 ''Error analyzing image: connection reset''), empty_db)
   \<and> risk_assessment (sample_env\<lparr>send_message := (\<lambda>s t i. Inl ''upstream timeout'')\<rparr>)
      empty_db sample_request ''u1''
     = (Inl (HTTPException 500 ''Error in risk assessment: upstream timeout''), empty_db)
   \<and> risk_assessment (sample_env\<lparr>insert_error := (\<lambda>doc. Some ''connection reset'')\<rparr>)
      empty_db sample_request ''u1''
     = (Inl (HTTPException 500 ''Error in risk assessment: connection reset''), empty_db)
   \<and> (\<exists>r doc. fst (analyze_image sample_env empty_db ''image-bytes'' ''u1'') = Inr r \<and>
        analyses (snd (analyze_image sample_env empty_db ''image-bytes'' ''u1'')) = [doc])
   \<and> (\<exists>r doc. fst (risk_assessment sample_env empty_db sample_request ''u1'') = Inr r \<and>
        analyses (snd (risk_assessment sample_env empty_db sample_request ''u1'')) = [doc])"
proof -
  let ?ai = "sample_env\<lparr>send_message := (\<lambda>s t i. Inl ''upstream timeout'')\<rparr>"
  let ?st = "sample_env\<lparr>insert_error := (\<lambda>doc. Some ''connection reset'')\<rparr>"
  have 1: "analyze_image ?ai empty_db ''image-bytes'' ''u1''
      = (Inl (HTTPException 500 (''Error analyzing image: '' @ ''upstream timeout'')), empty_db)"
    by (rule ai_failure_not_persisted [where env = ?ai and png = "''image-bytes''",
          THEN conjunct1, THEN mp])
       (simp add: sample_env_def)
  have 2: "analyze_image ?st empty_db ''image-bytes'' ''u1''
      = (Inl (HTTPException 500 (''Error analyzing image: '' @ ''connection reset'')), empty_db)"
    by (rule ai_failure_not_persisted [where env = ?st and png = "''image-bytes''"
          and reply = "''Findings suggest a moderate risk.''",
          THEN conjunct2, THEN conjunct1, THEN mp])
       (simp add: sample_env_def)
  have 3: "risk_assessment ?ai empty_db sample_request ''u1''
      = (Inl (HTTPException 500 (''Error in risk assessment: '' @ ''upstream timeout'')), empty_db)"
    by (rule ai_failure_not_persisted [where env = ?ai,
          THEN conjunct2, THEN conjunct2, THEN conjunct1, THEN mp])
       (simp add: sample_env_def)
  have 4: "risk_assessment ?st empty_db sample_request ''u1''
      = (Inl (HTTPException 500 (''Error in risk assessment: '' @ ''connection reset'')), empty_db)"
    by (rule ai_failure_not_persisted [where env = ?st
          and reply = "''Findings suggest a moderate risk.''",
          THEN conjunct2, THEN conjunct2, THEN conjunct2, THEN conjunct1, THEN mp])
       (simp add: sample_env_def)
  have 5: "\<exists>r. fst (analyze_image sample_env empty_db ''image-bytes'' ''u1'') = Inr r"
    by (simp add: analyze_image_def sample_env_def insert_one_def Let_def)
  have 6: "\<exists>r. fst (risk_assessment sample_env empty_db sample_request ''u1'') = Inr r"
    by (simp add: risk_assessment_def sample_env_def insert_one_def Let_def)
  note T = ai_failure_not_persisted [where env = sample_env and d = empty_db
      and contents = "''image-bytes''" and user_id = "''u1''" and data = sample_request,
      THEN conjunct2, THEN conjunct2, THEN conjunct2, THEN conjunct2, THEN conjunct2,
      THEN conjunct2]
  have 7: "\<exists>doc. analyses (snd (analyze_image sample_env empty_db ''image-bytes'' ''u1''))
              = analyses empty_db @ [doc]"
    by (rule T [THEN conjunct1, THEN iffD2, OF 5])
  have 8: "\<exists>doc. analyses (snd (risk_assessment sample_env empty_db sample_request ''u1''))
              = analyses empty_db @ [doc]"
    by (rule T [THEN conjunct2, THEN iffD2, OF 6])
  from 1 2 3 4 5 6 7 8 show ?thesis
    by (simp add: empty_db_def)
qed

section \<open>The response and the stored record of an image analysis\<close>




section \<open>Rejections of the authentication component\<close>

lemma find_docs_empty_iff:
  "find_docs (k, v) ds = [] \<longleftrightarrow> (\<forall>u \<in> set ds. u k \<noteq> Some v)"
  by (simp add: find_docs_def matches_def filter_empty_conv)

lemma find_one_None_iff:
  "find_one (k, v) ds = None \<longleftrightarrow> (\<forall>u \<in> set ds. u k \<noteq> Some v)"
proof (cases "find_docs (k, v) ds")
  case Nil
  then show ?thesis using find_docs_empty_iff [of k v ds] by (simp add: find_one_def)
next
  case (Cons a as)
  then show ?thesis using find_docs_empty_iff [of k v ds] by (simp add: find_one_def)
qed

lemma find_one_Some_if:
  "\<exists>u \<in> set ds. u k = Some v \<Longrightarrow> \<exists>u. find_one (k, v) ds = Some u"
  using find_one_None_iff [of k v ds] by (cases "find_one (k, v) ds") auto

lemma register_existing:
  assumes "\<exists>u \<in> set (users d). u ''email'' = Some (VStr email)"
  shows "register env d email full_name password
           = (Inl (HTTPException 400 ''Email already registered''), d)"
proof -
  from find_one_Some_if [OF assms] obtain u where
    "find_one (''email'', VStr email) (users d) = Some u" ..
  then show ?thesis by (simp add: register_def)
qed

lemma register_success_stores_email:
  assumes "register env d email full_name password = (Inr r, d')"
  shows "\<exists>u \<in> set (users d'). u ''email'' = Some (VStr email)"
proof (cases "find_one (''email'', VStr email) (users d)")
  case (Some u)
  with assms show ?thesis by (simp add: register_def)
next
  case None
  with assms show ?thesis
    by (auto simp: register_def Let_def insert_one_def model_dump_User_def
        split: option.splits)
qed

lemma get_current_user_rejects:
  assumes "jwt_decode env token = ExpiredSignatureError \<or> jwt_decode env token = InvalidTokenError"
  shows "\<exists>detail. get_current_user env token = Inl (HTTPException 401 detail)"
  using assms by (auto simp: get_current_user_def)

lemma Depends_rejects:
  assumes "get_current_user env token = Inl e"
  shows "Depends_get_current_user env token d handler = (Inl e, d)"
  using assms by (simp add: Depends_get_current_user_def)

text \<open>
  Claim C8. Registering an email that a stored user already has fails with the status 400
  and leaves the store as it was, so a second registration of an email after a successful
  one fails. A login with an email no user has, or with a password that does not verify
  against the stored hash, fails with the status 401. Each of the six protected routes
  answers a token whose decoding raises the expired-signature or the invalid-token
  exception with the status 401, without running its handler.
\<close>

theorem auth_rejections:
  "((\<exists>u \<in> set (users d). u ''email'' = Some (VStr email)) \<longrightarrow>
      register env d email full_name password
        = (Inl (HTTPException 400 ''Email already registered''), d))
   \<and> (register env d email full_name password = (Inr r, d') \<longrightarrow>
      register env_b d' email full_name_b password_b
        = (Inl (HTTPException 400 ''Email already registered''), d'))
   \<and> ((\<forall>u \<in> set (users d). u ''email'' \<noteq> Some (VStr email)) \<longrightarrow>
      login env d email password = Inl (HTTPException 401 ''Invalid credentials''))
   \<and> (find_one (''email'', VStr email) (users d) = Some user_doc \<and>
      \<not> verify_password env password (get_str user_doc ''password'' []) \<longrightarrow>
      login env d email password = Inl (HTTPException 401 ''Invalid credentials''))
   \<and> (jwt_decode env token = ExpiredSignatureError \<or> jwt_decode env token = InvalidTokenError
      \<longrightarrow> (\<exists>detail.
            route_get_me env d token = (Inl (HTTPException 401 detail), d) \<and>
            route_create_medical_history env d token data = (Inl (HTTPException 401 detail), d) \<and>
            route_get_medical_history env d token = (Inl (HTTPException 401 detail), d) \<and>
            route_analyze_image env d token contents = (Inl (HTTPException 401 detail), d) \<and>
            route_risk_assessment env d token data = (Inl (HTTPException 401 detail), d) \<and>
            route_get_analyses env d token = (Inl (HTTPException 401 detail), d)))"
proof -
  have reg: "(\<exists>u \<in> set (users d). u ''email'' = Some (VStr email)) \<longrightarrow>
      register env d email full_name password
        = (Inl (HTTPException 400 ''Email already registered''), d)"
    using register_existing by blast
  have twice: "register env d email full_name password = (Inr r, d') \<longrightarrow>
      register env_b d' email full_name_b password_b
        = (Inl (HTTPException 400 ''Email already registered''), d')"
    using register_success_stores_email register_existing by blast
  have unknown: "(\<forall>u \<in> set (users d). u ''email'' \<noteq> Some (VStr email)) \<longrightarrow>
      login env d email password = Inl (HTTPException 401 ''Invalid credentials'')"
    using find_one_None_iff [of "''email''" "VStr email" "users d"]
    by (auto simp: login_def)
  have wrong: "find_one (''email'', VStr email) (users d) = Some user_doc \<and>
      \<not> verify_password env password (get_str user_doc ''password'' []) \<longrightarrow>
      login env d email password = Inl (HTTPException 401 ''Invalid credentials'')"
    by (simp add: login_def)
  have token: "jwt_decode env token = ExpiredSignatureError \<or> jwt_decode env token = InvalidTokenError
      \<longrightarrow> (\<exists>detail.
            route_get_me env d token = (Inl (HTTPException 401 detail), d) \<and>
            route_create_medical_history env d token data = (Inl (HTTPException 401 detail), d) \<and>
            route_get_medical_history env d token = (Inl (HTTPException 401 detail), d) \<and>
            route_analyze_image env d token contents = (Inl (HTTPException 401 detail), d) \<and>
            route_risk_assessment env d token data = (Inl (HTTPException 401 detail), d) \<and>
            route_get_analyses env d token = (Inl (HTTPException 401 detail), d))"
  proof
    assume "jwt_decode env token = ExpiredSignatureError \<or> jwt_decode env token = InvalidTokenError"
    from get_current_user_rejects [OF this] obtain detail where
      g: "get_current_user env token = Inl (HTTPException 401 detail)" ..
    show "\<exists>detail.
            route_get_me env d token = (Inl (HTTPException 401 detail), d) \<and>
            route_create_medical_history env d token data = (Inl (HTTPException 401 detail), d) \<and>
            route_get_medical_history env d token = (Inl (HTTPException 401 detail), d) \<and>
            route_analyze_image env d token contents = (Inl (HTTPException 401 detail), d) \<and>
            route_risk_assessment env d token data = (Inl (HTTPException 401 detail), d) \<and>
            route_get_analyses env d token = (Inl (HTTPException 401 detail), d)"
      unfolding route_get_me_def route_create_medical_history_def route_get_medical_history_def
        route_analyze_image_def route_risk_assessment_def route_get_analyses_def
      by (intro exI [of _ detail] conjI) (rule Depends_rejects [OF g])+
  qed
  from reg twice unknown wrong token show ?thesis by (intro conjI)
qed


theorem auth_rejections_witness:
  "(\<exists>r. register sample_env empty_db ''ann@example.com'' ''Ann'' ''secret'' = (Inr r, one_user_db))
   \<and> register sample_env one_user_db ''ann@example.com'' ''Eve'' ''other''
       = (Inl (HTTPException 400 ''Email already registered''), one_user_db)
   \<and> length (users one_user_db) = 1
   \<and> login sample_env one_user_db ''ann@example.com'' ''wrong''
       = Inl (HTTPException 401 ''Invalid credentials'')
   \<and> login sample_env one_user_db ''nobody@example.com'' ''secret''
       = Inl (HTTPException 401 ''Invalid credentials'')
   \<and> (\<exists>r. login sample_env one_user_db ''ann@example.com'' ''secret'' = Inr r)
   \<and> (\<exists>detail.
        route_get_me sample_env one_user_db ''old'' = (Inl (HTTPException 401 detail), one_user_db) \<and>
        route_create_medical_history sample_env one_user_db ''old'' sample_request
          = (Inl (HTTPException 401 detail), one_user_db) \<and>
        route_get_medical_history sample_env one_user_db ''old''
          = (Inl (HTTPException 401 detail), one_user_db) \<and>
        route_analyze_image sample_env one_user_db ''old'' ''image-bytes''
          = (Inl (HTTPException 401 detail), one_user_db) \<and>
        route_risk_assessment sample_env one_user_db ''old'' sample_request
          = (Inl (HTTPException 401 detail), one_user_db) \<and>
        route_get_analyses sample_env one_user_db ''old''
          = (Inl (HTTPException 401 detail), one_user_db))
   \<and> (\<exists>detail.
        route_get_analyses sample_env one_user_db ''signee.forged''
          = (Inl (HTTPException 401 detail), one_user_db))"
proof -
  let ?d = one_user_db
  have users: "\<exists>u. users ?d = [u] \<and> u ''email'' = Some (VStr ''ann@example.com'') \<and>
      u ''password'' = Some (VStr ''hash:secret'') \<and> u ''id'' = Some (VStr ''id-1'') \<and>
      u ''full_name'' = Some (VStr ''Ann'') \<and>
      u ''created_at'' = Some (VStr (isoformat (now sample_env)))"
    by (simp add: one_user_db_def register_def find_one_def find_docs_def empty_db_def
        sample_env_def insert_one_def Let_def model_dump_User_def hash_password_def)
  then obtain u where u: "users ?d = [u]" "u ''email'' = Some (VStr ''ann@example.com'')"
    "u ''password'' = Some (VStr ''hash:secret'')" "u ''id'' = Some (VStr ''id-1'')"
    "u ''full_name'' = Some (VStr ''Ann'')"
    "u ''created_at'' = Some (VStr (isoformat (now sample_env)))"
    by (elim exE conjE) (rule that, assumption+)
  have found: "find_one (''email'', VStr ''ann@example.com'') (users ?d) = Some u"
    by (simp add: u find_one_def find_docs_def matches_def)
  have 1: "\<exists>r. register sample_env empty_db ''ann@example.com'' ''Ann'' ''secret'' = (Inr r, ?d)"
    by (simp add: one_user_db_def register_def find_one_def find_docs_def empty_db_def
        sample_env_def insert_one_def Let_def)
  then obtain r where
    r: "register sample_env empty_db ''ann@example.com'' ''Ann'' ''secret'' = (Inr r, ?d)" ..
  note T = auth_rejections [where env = sample_env and email = "''ann@example.com''"
      and ?d' = ?d and env_b = sample_env and full_name_b = "''Eve''" and password_b = "''other''"
      and r = r and full_name = "''Ann''" and user_doc = u and data = sample_request
      and contents = "''image-bytes''"]
  have 2: "register sample_env ?d ''ann@example.com'' ''Eve'' ''other''
       = (Inl (HTTPException 400 ''Email already registered''), ?d)"
    by (rule T [where d = empty_db and password = "''secret''",
          THEN conjunct2, THEN conjunct1, THEN mp, OF r])
  have 3: "length (users ?d) = 1"
    by (simp add: u)
  have nv: "\<not> verify_password sample_env ''wrong'' (get_str u ''password'' [])"
    by (simp add: verify_password_def get_str_def u sample_env_def)
  have 4: "login sample_env ?d ''ann@example.com'' ''wrong''
       = Inl (HTTPException 401 ''Invalid credentials'')"
    by (rule T [where d = ?d and password = "''wrong''",
          THEN conjunct2, THEN conjunct2, THEN conjunct2, THEN conjunct1, THEN mp,
          OF conjI [OF found nv]])
  have unknown: "\<forall>u \<in> set (users ?d). u ''email'' \<noteq> Some (VStr ''nobody@example.com'')"
    by (simp add: u)
  have 5: "login sample_env ?d ''nobody@example.com'' ''secret''
       = Inl (HTTPException 401 ''Invalid credentials'')"
    by (rule auth_rejections [where d = ?d and email = "''nobody@example.com''"
          and env = sample_env and password = "''secret''",
          THEN conjunct2, THEN conjunct2, THEN conjunct1, THEN mp, OF unknown])
  have 6: "\<exists>r. login sample_env ?d ''ann@example.com'' ''secret'' = Inr r"
    by (simp add: login_def found [unfolded u(1)] u verify_password_def get_str_def
        sample_env_def as_datetime_def isoformat_examples sample_fromisoformat_def)
  have old: "jwt_decode sample_env ''old'' = ExpiredSignatureError"
    by (simp add: sample_env_def)
  have 7: "\<exists>detail.
        route_get_me sample_env ?d ''old'' = (Inl (HTTPException 401 detail), ?d) \<and>
        route_create_medical_history sample_env ?d ''old'' sample_request
          = (Inl (HTTPException 401 detail), ?d) \<and>
        route_get_medical_history sample_env ?d ''old''
          = (Inl (HTTPException 401 detail), ?d) \<and>
        route_analyze_image sample_env ?d ''old'' ''image-bytes''
          = (Inl (HTTPException 401 detail), ?d) \<and>
        route_risk_assessment sample_env ?d ''old'' sample_request
          = (Inl (HTTPException 401 detail), ?d) \<and>
        route_get_analyses sample_env ?d ''old''
          = (Inl (HTTPException 401 detail), ?d)"
    by (rule T [where d = ?d and token = "''old''",
          THEN conjunct2, THEN conjunct2, THEN conjunct2, THEN conjunct2, THEN mp,
          OF disjI1 [OF old]])
  have forged: "jwt_decode sample_env ''signee.forged'' = InvalidTokenError"
    by (simp add: sample_env_def)
  from T [where d = ?d and token = "''signee.forged''",
          THEN conjunct2, THEN conjunct2, THEN conjunct2, THEN conjunct2, THEN mp,
          OF disjI2 [OF forged]]
  have 8: "\<exists>detail.
        route_get_analyses sample_env ?d ''signee.forged''
          = (Inl (HTTPException 401 detail), ?d)"
    by (elim exE conjE) (rule exI, assumption)
  from 1 2 3 4 5 6 7 8 show ?thesis by (intro conjI)
qed

section \<open>Replacing the medical history\<close>

lemma delete_many_user:
  "delete_many (''user_id'', VStr u) ds = filter (\<lambda>doc. doc ''user_id'' \<noteq> Some (VStr u)) ds"
  by (simp add: delete_many_def matches_def)

lemma filter_user_others:
  assumes "v \<noteq> u"
  shows "filter (\<lambda>doc. doc ''user_id'' = Some (VStr v))
           (filter (\<lambda>doc. doc ''user_id'' \<noteq> Some (VStr u)) ds)
         = filter (\<lambda>doc. doc ''user_id'' = Some (VStr v)) ds"
  unfolding filter_filter using assms by (intro filter_cong) auto

lemma filter_user_same:
  "filter (\<lambda>doc. doc ''user_id'' = Some (VStr u))
     (filter (\<lambda>doc. doc ''user_id'' \<noteq> Some (VStr u)) ds) = []"
  by (simp add: filter_empty_conv)

lemma at_most_one_delete:
  assumes "at_most_one_per_user ds"
  shows "at_most_one_per_user (filter (\<lambda>doc. doc ''user_id'' \<noteq> Some (VStr u)) ds)"
  unfolding at_most_one_per_user_def
proof
  fix user_id
  show "length (filter (\<lambda>doc. doc ''user_id'' = Some (VStr user_id))
          (filter (\<lambda>doc. doc ''user_id'' \<noteq> Some (VStr u)) ds)) \<le> 1"
  proof (cases "user_id = u")
    case True
    then show ?thesis by (simp only: filter_user_same) simp
  next
    case False
    from filter_user_others [OF this] assms show ?thesis
      by (simp add: at_most_one_per_user_def)
  qed
qed

lemma at_most_one_replace:
  assumes "at_most_one_per_user ds" and "doc ''user_id'' = Some (VStr u)"
  shows "at_most_one_per_user (filter (\<lambda>doc. doc ''user_id'' \<noteq> Some (VStr u)) ds @ [doc])"
  unfolding at_most_one_per_user_def
proof
  fix user_id
  show "length (filter (\<lambda>doc. doc ''user_id'' = Some (VStr user_id))
          (filter (\<lambda>doc. doc ''user_id'' \<noteq> Some (VStr u)) ds @ [doc])) \<le> 1"
  proof (cases "user_id = u")
    case True
    then show ?thesis by (simp add: filter_user_same del: filter_filter)
  next
    case False
    with assms(2) have "filter (\<lambda>doc. doc ''user_id'' = Some (VStr user_id)) [doc] = []"
      by simp
    with filter_user_others [OF False] assms(1) show ?thesis
      by (simp add: at_most_one_per_user_def del: filter_filter)
  qed
qed

lemma create_medical_history_cases:
  "(\<exists>e. create_medical_history env d data user_id =
        (Inl (Unhandled e),
         d\<lparr>medical_history :=
             filter (\<lambda>doc. doc ''user_id'' \<noteq> Some (VStr user_id)) (medical_history d)\<rparr>))
   \<or> create_medical_history env d data user_id =
        (Inr (model_dump_MedicalHistory
                   \<lparr>age = age data, family_history = family_history data,
                     previous_biopsies = previous_biopsies data,
                     hormone_therapy = hormone_therapy data,
                     first_pregnancy_age = first_pregnancy_age data,
                     menstruation_age = menstruation_age data,
                     breast_density = breast_density data,
                     h_id = uuid4 env, h_user_id = user_id, h_created_at = now env\<rparr>),
         d\<lparr>medical_history :=
             filter (\<lambda>doc. doc ''user_id'' \<noteq> Some (VStr user_id)) (medical_history d) @
             [(model_dump_MedicalHistory
                   \<lparr>age = age data, family_history = family_history data,
                     previous_biopsies = previous_biopsies data,
                     hormone_therapy = hormone_therapy data,
                     first_pregnancy_age = first_pregnancy_age data,
                     menstruation_age = menstruation_age data,
                     breast_density = breast_density data,
                     h_id = uuid4 env, h_user_id = user_id, h_created_at = now env\<rparr>)
              (''created_at'' \<mapsto> VStr (isoformat (now env)))]\<rparr>)"
  by (simp add: create_medical_history_def Let_def insert_one_def delete_many_user
      split: option.splits)

lemma create_preserves:
  assumes "at_most_one_per_user (medical_history d)"
  shows "at_most_one_per_user (medical_history (snd (create_medical_history env d data user_id)))"
  using create_medical_history_cases [of env d data user_id]
proof (elim disjE exE)
  fix e
  assume "create_medical_history env d data user_id =
        (Inl (Unhandled e),
         d\<lparr>medical_history :=
             filter (\<lambda>doc. doc ''user_id'' \<noteq> Some (VStr user_id)) (medical_history d)\<rparr>)"
  with at_most_one_delete [OF assms] show ?thesis by simp
next
  define stored where "stored = (model_dump_MedicalHistory
                   \<lparr>age = age data, family_history = family_history data,
                     previous_biopsies = previous_biopsies data,
                     hormone_therapy = hormone_therapy data,
                     first_pregnancy_age = first_pregnancy_age data,
                     menstruation_age = menstruation_age data,
                     breast_density = breast_density data,
                     h_id = uuid4 env, h_user_id = user_id, h_created_at = now env\<rparr>)
                 (''created_at'' \<mapsto> VStr (isoformat (now env)))"
  assume "create_medical_history env d data user_id =
        (Inr (model_dump_MedicalHistory
                   \<lparr>age = age data, family_history = family_history data,
                     previous_biopsies = previous_biopsies data,
                     hormone_therapy = hormone_therapy data,
                     first_pregnancy_age = first_pregnancy_age data,
                     menstruation_age = menstruation_age data,
                     breast_density = breast_density data,
                     h_id = uuid4 env, h_user_id = user_id, h_created_at = now env\<rparr>),
         d\<lparr>medical_history :=
             filter (\<lambda>doc. doc ''user_id'' \<noteq> Some (VStr user_id)) (medical_history d) @
             [(model_dump_MedicalHistory
                   \<lparr>age = age data, family_history = family_history data,
                     previous_biopsies = previous_biopsies data,
                     hormone_therapy = hormone_therapy data,
                     first_pregnancy_age = first_pregnancy_age data,
                     menstruation_age = menstruation_age data,
                     breast_density = breast_density data,
                     h_id = uuid4 env, h_user_id = user_id, h_created_at = now env\<rparr>)
              (''created_at'' \<mapsto> VStr (isoformat (now env)))]\<rparr>)"
  then have c: "medical_history (snd (create_medical_history env d data user_id))
      = filter (\<lambda>doc. doc ''user_id'' \<noteq> Some (VStr user_id)) (medical_history d) @ [stored]"
    by (simp add: stored_def)
  have "stored ''user_id'' = Some (VStr user_id)"
    by (simp add: stored_def model_dump_MedicalHistory_def)
  from at_most_one_replace [of "medical_history d" stored user_id, OF assms this]
  show ?thesis by (simp only: c)
qed

lemma create_all_preserves:
  "at_most_one_per_user (medical_history d) \<Longrightarrow>
     at_most_one_per_user (medical_history (create_all requests d))"
proof (induction requests arbitrary: d)
  case Nil
  then show ?case by simp
next
  case (Cons request requests)
  obtain env data user_id where request: "request = (env, data, user_id)"
    by (cases request) auto
  from Cons.prems have
    "at_most_one_per_user (medical_history (snd (create_medical_history env d data user_id)))"
    by (rule create_preserves)
  then show ?case
    unfolding request create_all.simps by (rule Cons.IH)
qed

lemma create_medical_history_succeeds:
  assumes "\<forall>doc. insert_error env doc = None"
  shows "\<exists>h. fst (create_medical_history env d data user_id) = Inr h"
  using assms by (simp add: create_medical_history_def insert_one_def Let_def)

lemma sample_histories:
  "\<exists>d1 d2. medical_history (create_all
        [(sample_env, sample_request, ''u1''),
         (sample_env\<lparr>uuid4 := ''id-3''\<rparr>, sample_request, ''u2'')] empty_db) = [d1, d2] \<and>
     d1 ''user_id'' = Some (VStr ''u1'') \<and> d2 ''user_id'' = Some (VStr ''u2'') \<and>
     d2 ''id'' = Some (VStr ''id-3'')"
  by (simp add: create_medical_history_def insert_one_def Let_def sample_env_def empty_db_def
      delete_many_user model_dump_MedicalHistory_def)

text \<open>
  Claim C2. \<^verbatim>\<open>create_medical_history\<close> deletes the records of the user and then inserts
  the new one. So the store keeps at most one record per user over any sequence of create
  requests, from a store that has at most one per user (the empty one in particular). After
  a successful create the collection is what it was without the records of that user,
  followed by the new record: the user has exactly that one record, the records of every
  other user are as before, and the new record holds each field of the request (an
  optional field left out as the null value), the user's identifier, a fresh identifier
  and the creation time, and nothing else. This holds whatever the store held before, a
  first record of the same user included.
\<close>

theorem medical_history_replaced:
  "(at_most_one_per_user (medical_history d) \<longrightarrow>
      at_most_one_per_user (medical_history (create_all requests d)))
   \<and> (medical_history d = [] \<longrightarrow>
      (\<forall>u. length (filter (\<lambda>doc. doc ''user_id'' = Some (VStr u))
                     (medical_history (create_all requests d))) \<le> 1))
   \<and> (create_medical_history env d data user_id = (Inr h, d') \<longrightarrow>
      (\<exists>stored.
         medical_history d'
           = filter (\<lambda>doc. doc ''user_id'' \<noteq> Some (VStr user_id)) (medical_history d)
             @ [stored] \<and>
         filter (\<lambda>doc. doc ''user_id'' = Some (VStr user_id)) (medical_history d') = [stored] \<and>
         filter (\<lambda>doc. doc ''user_id'' \<noteq> Some (VStr user_id)) (medical_history d')
           = filter (\<lambda>doc. doc ''user_id'' \<noteq> Some (VStr user_id)) (medical_history d) \<and>
         (\<forall>u. u \<noteq> user_id \<longrightarrow>
            filter (\<lambda>doc. doc ''user_id'' = Some (VStr u)) (medical_history d')
              = filter (\<lambda>doc. doc ''user_id'' = Some (VStr u)) (medical_history d)) \<and>
         users d' = users d \<and> analyses d' = analyses d \<and>
         stored ''id'' = Some (VStr (uuid4 env)) \<and>
         stored ''user_id'' = Some (VStr user_id) \<and>
         stored ''age'' = Some (VInt (age data)) \<and>
         stored ''family_history'' = Some (VBool (family_history data)) \<and>
         stored ''previous_biopsies'' = Some (VBool (previous_biopsies data)) \<and>
         stored ''hormone_therapy'' = Some (VBool (hormone_therapy data)) \<and>
         stored ''first_pregnancy_age''
           = Some (case first_pregnancy_age data of None \<Rightarrow> VNone | Some i \<Rightarrow> VInt i) \<and>
         stored ''menstruation_age''
           = Some (case menstruation_age data of None \<Rightarrow> VNone | Some i \<Rightarrow> VInt i) \<and>
         stored ''breast_density''
           = Some (case breast_density data of None \<Rightarrow> VNone | Some s \<Rightarrow> VStr s) \<and>
         stored ''created_at'' = Some (VStr (isoformat (now env))) \<and>
         dom stored = {''id'', ''user_id'', ''age'', ''family_history'', ''previous_biopsies'',
           ''hormone_therapy'', ''first_pregnancy_age'', ''menstruation_age'',
           ''breast_density'', ''created_at''} \<and>
         h = stored(''created_at'' \<mapsto> VDatetime (now env))))"
proof -
  have inv: "at_most_one_per_user (medical_history d) \<longrightarrow>
      at_most_one_per_user (medical_history (create_all requests d))"
    using create_all_preserves by blast
  have empty: "medical_history d = [] \<longrightarrow>
      (\<forall>u. length (filter (\<lambda>doc. doc ''user_id'' = Some (VStr u))
                     (medical_history (create_all requests d))) \<le> 1)"
  proof
    assume "medical_history d = []"
    then have "at_most_one_per_user (medical_history d)"
      by (simp add: at_most_one_per_user_def)
    then have "at_most_one_per_user (medical_history (create_all requests d))"
      by (rule create_all_preserves)
    then show "\<forall>u. length (filter (\<lambda>doc. doc ''user_id'' = Some (VStr u))
                     (medical_history (create_all requests d))) \<le> 1"
      by (simp add: at_most_one_per_user_def)
  qed
  have one: "create_medical_history env d data user_id = (Inr h, d') \<longrightarrow>
      (\<exists>stored.
         medical_history d'
           = filter (\<lambda>doc. doc ''user_id'' \<noteq> Some (VStr user_id)) (medical_history d)
             @ [stored] \<and>
         filter (\<lambda>doc. doc ''user_id'' = Some (VStr user_id)) (medical_history d') = [stored] \<and>
         filter (\<lambda>doc. doc ''user_id'' \<noteq> Some (VStr user_id)) (medical_history d')
           = filter (\<lambda>doc. doc ''user_id'' \<noteq> Some (VStr user_id)) (medical_history d) \<and>
         (\<forall>u. u \<noteq> user_id \<longrightarrow>
            filter (\<lambda>doc. doc ''user_id'' = Some (VStr u)) (medical_history d')
              = filter (\<lambda>doc. doc ''user_id'' = Some (VStr u)) (medical_history d)) \<and>
         users d' = users d \<and> analyses d' = analyses d \<and>
         stored ''id'' = Some (VStr (uuid4 env)) \<and>
         stored ''user_id'' = Some (VStr user_id) \<and>
         stored ''age'' = Some (VInt (age data)) \<and>
         stored ''family_history'' = Some (VBool (family_history data)) \<and>
         stored ''previous_biopsies'' = Some (VBool (previous_biopsies data)) \<and>
         stored ''hormone_therapy'' = Some (VBool (hormone_therapy data)) \<and>
         stored ''first_pregnancy_age''
           = Some (case first_pregnancy_age data of None \<Rightarrow> VNone | Some i \<Rightarrow> VInt i) \<and>
         stored ''menstruation_age''
           = Some (case menstruation_age data of None \<Rightarrow> VNone | Some i \<Rightarrow> VInt i) \<and>
         stored ''breast_density''
           = Some (case breast_density data of None \<Rightarrow> VNone | Some s \<Rightarrow> VStr s) \<and>
         stored ''created_at'' = Some (VStr (isoformat (now env))) \<and>
         dom stored = {''id'', ''user_id'', ''age'', ''family_history'', ''previous_biopsies'',
           ''hormone_therapy'', ''first_pregnancy_age'', ''menstruation_age'',
           ''breast_density'', ''created_at''} \<and>
         h = stored(''created_at'' \<mapsto> VDatetime (now env)))"
  proof
    assume a: "create_medical_history env d data user_id = (Inr h, d')"
    define history where "history = model_dump_MedicalHistory
                   \<lparr>age = age data, family_history = family_history data,
                     previous_biopsies = previous_biopsies data,
                     hormone_therapy = hormone_therapy data,
                     first_pregnancy_age = first_pregnancy_age data,
                     menstruation_age = menstruation_age data,
                     breast_density = breast_density data,
                     h_id = uuid4 env, h_user_id = user_id, h_created_at = now env\<rparr>"
    define stored where "stored = history(''created_at'' \<mapsto> VStr (isoformat (now env)))"
    let ?others = "filter (\<lambda>doc. doc ''user_id'' \<noteq> Some (VStr user_id)) (medical_history d)"
    from a create_medical_history_cases [of env d data user_id]
    have h: "h = history" and d': "d' = d\<lparr>medical_history := ?others @ [stored]\<rparr>"
      unfolding stored_def history_def by auto
    from d' have coll: "medical_history d' = ?others @ [stored]"
      and rest: "users d' = users d" "analyses d' = analyses d"
      by simp_all
    have uid: "stored ''user_id'' = Some (VStr user_id)"
      by (simp add: stored_def history_def model_dump_MedicalHistory_def)
    have own: "filter (\<lambda>doc. doc ''user_id'' = Some (VStr user_id)) (medical_history d')
        = [stored]"
      unfolding coll filter_append filter_user_same using uid by simp
    have others: "filter (\<lambda>doc. doc ''user_id'' \<noteq> Some (VStr user_id)) (medical_history d')
        = ?others"
      unfolding coll using uid by simp
    have each: "\<forall>u. u \<noteq> user_id \<longrightarrow>
        filter (\<lambda>doc. doc ''user_id'' = Some (VStr u)) (medical_history d')
          = filter (\<lambda>doc. doc ''user_id'' = Some (VStr u)) (medical_history d)"
    proof (intro allI impI)
      fix u
      assume "u \<noteq> user_id"
      with uid have "filter (\<lambda>doc. doc ''user_id'' = Some (VStr u)) [stored] = []"
        by simp
      with filter_user_others [OF \<open>u \<noteq> user_id\<close>, of "medical_history d"]
      show "filter (\<lambda>doc. doc ''user_id'' = Some (VStr u)) (medical_history d')
          = filter (\<lambda>doc. doc ''user_id'' = Some (VStr u)) (medical_history d)"
        unfolding coll filter_append by simp
    qed
    have fields: "stored ''id'' = Some (VStr (uuid4 env))"
      "stored ''age'' = Some (VInt (age data))"
      "stored ''family_history'' = Some (VBool (family_history data))"
      "stored ''previous_biopsies'' = Some (VBool (previous_biopsies data))"
      "stored ''hormone_therapy'' = Some (VBool (hormone_therapy data))"
      "stored ''first_pregnancy_age''
         = Some (case first_pregnancy_age data of None \<Rightarrow> VNone | Some i \<Rightarrow> VInt i)"
      "stored ''menstruation_age''
         = Some (case menstruation_age data of None \<Rightarrow> VNone | Some i \<Rightarrow> VInt i)"
      "stored ''breast_density''
         = Some (case breast_density data of None \<Rightarrow> VNone | Some s \<Rightarrow> VStr s)"
      "stored ''created_at'' = Some (VStr (isoformat (now env)))"
      by (simp_all add: stored_def history_def model_dump_MedicalHistory_def opt_int_def
          opt_str_def)
    have keys: "dom stored = {''id'', ''user_id'', ''age'', ''family_history'',
        ''previous_biopsies'', ''hormone_therapy'', ''first_pregnancy_age'',
        ''menstruation_age'', ''breast_density'', ''created_at''}"
      by (simp add: stored_def history_def model_dump_MedicalHistory_def insert_commute)
    have "history ''created_at'' = Some (VDatetime (now env))"
      by (simp add: history_def model_dump_MedicalHistory_def)
    then have response: "h = stored(''created_at'' \<mapsto> VDatetime (now env))"
      unfolding h stored_def by (simp add: fun_upd_idem)
    from coll own others each rest fields(1) uid fields(2-9) keys response
    show "\<exists>stored.
         medical_history d'
           = filter (\<lambda>doc. doc ''user_id'' \<noteq> Some (VStr user_id)) (medical_history d)
             @ [stored] \<and>
         filter (\<lambda>doc. doc ''user_id'' = Some (VStr user_id)) (medical_history d') = [stored] \<and>
         filter (\<lambda>doc. doc ''user_id'' \<noteq> Some (VStr user_id)) (medical_history d')
           = filter (\<lambda>doc. doc ''user_id'' \<noteq> Some (VStr user_id)) (medical_history d) \<and>
         (\<forall>u. u \<noteq> user_id \<longrightarrow>
            filter (\<lambda>doc. doc ''user_id'' = Some (VStr u)) (medical_history d')
              = filter (\<lambda>doc. doc ''user_id'' = Some (VStr u)) (medical_history d)) \<and>
         users d' = users d \<and> analyses d' = analyses d \<and>
         stored ''id'' = Some (VStr (uuid4 env)) \<and>
         stored ''user_id'' = Some (VStr user_id) \<and>
         stored ''age'' = Some (VInt (age data)) \<and>
         stored ''family_history'' = Some (VBool (family_history data)) \<and>
         stored ''previous_biopsies'' = Some (VBool (previous_biopsies data)) \<and>
         stored ''hormone_therapy'' = Some (VBool (hormone_therapy data)) \<and>
         stored ''first_pregnancy_age''
           = Some (case first_pregnancy_age data of None \<Rightarrow> VNone | Some i \<Rightarrow> VInt i) \<and>
         stored ''menstruation_age''
           = Some (case menstruation_age data of None \<Rightarrow> VNone | Some i \<Rightarrow> VInt i) \<and>
         stored ''breast_density''
           = Some (case breast_density data of None \<Rightarrow> VNone | Some s \<Rightarrow> VStr s) \<and>
         stored ''created_at'' = Some (VStr (isoformat (now env))) \<and>
         dom stored = {''id'', ''user_id'', ''age'', ''family_history'', ''previous_biopsies'',
           ''hormone_therapy'', ''first_pregnancy_age'', ''menstruation_age'',
           ''breast_density'', ''created_at''} \<and>
         h = stored(''created_at'' \<mapsto> VDatetime (now env))"
      by (intro exI [of _ stored] conjI)
  qed
  from inv empty one show ?thesis by (intro conjI)
qed

theorem medical_history_replaced_witness:
  "(\<exists>h d3 other stored.
      create_medical_history (sample_env\<lparr>uuid4 := ''id-2''\<rparr>)
        (create_all
           [(sample_env, sample_request, ''u1''),
            (sample_env\<lparr>uuid4 := ''id-3''\<rparr>, sample_request, ''u2'')] empty_db)
        (sample_request\<lparr>age := 46, menstruation_age := None\<rparr>) ''u1'' = (Inr h, d3) \<and>
      medical_history d3 = [other, stored] \<and>
      other ''user_id'' = Some (VStr ''u2'') \<and>
      other ''id'' = Some (VStr ''id-3'') \<and>
      stored ''user_id'' = Some (VStr ''u1'') \<and>
      stored ''id'' = Some (VStr ''id-2'') \<and>
      stored ''age'' = Some (VInt 46) \<and>
      stored ''family_history'' = Some (VBool True) \<and>
      stored ''previous_biopsies'' = Some (VBool False) \<and>
      stored ''hormone_therapy'' = Some (VBool True) \<and>
      stored ''first_pregnancy_age'' = Some (VInt 25) \<and>
      stored ''menstruation_age'' = Some VNone \<and>
      stored ''breast_density'' = Some (VStr ''dense''))
   \<and> at_most_one_per_user (medical_history (create_all
        [(sample_env, sample_request, ''u1''),
         (sample_env\<lparr>uuid4 := ''id-3''\<rparr>, sample_request, ''u2''),
         (sample_env\<lparr>uuid4 := ''id-2''\<rparr>,
          sample_request\<lparr>age := 46, menstruation_age := None\<rparr>, ''u1'')] empty_db))
   \<and> (\<forall>u. length (filter (\<lambda>doc. doc ''user_id'' = Some (VStr u)) (medical_history (create_all
        [(sample_env, sample_request, ''u1''),
         (sample_env\<lparr>uuid4 := ''id-2''\<rparr>,
          sample_request\<lparr>age := 46, menstruation_age := None\<rparr>, ''u1'')] empty_db)))
        \<le> 1)"
proof -
  let ?d2 = "create_all
           [(sample_env, sample_request, ''u1''),
            (sample_env\<lparr>uuid4 := ''id-3''\<rparr>, sample_request, ''u2'')] empty_db"
  let ?env = "sample_env\<lparr>uuid4 := ''id-2''\<rparr>"
  let ?data = "sample_request\<lparr>age := 46, menstruation_age := None\<rparr>"
  let ?X = "create_medical_history ?env ?d2 ?data ''u1''"
  from sample_histories obtain d1 other where
    before: "medical_history ?d2 = [d1, other]"
    and d1: "d1 ''user_id'' = Some (VStr ''u1'')"
    and other: "other ''user_id'' = Some (VStr ''u2'')" "other ''id'' = Some (VStr ''id-3'')"
    by (elim exE conjE) (rule that, assumption+)
  have "\<exists>h. fst ?X = Inr h"
    by (rule create_medical_history_succeeds) (simp add: sample_env_def)
  then obtain h where "fst ?X = Inr h" ..
  then have x: "?X = (Inr h, snd ?X)"
    by (simp add: prod_eq_iff)
  from medical_history_replaced [THEN conjunct2, THEN conjunct2, THEN mp, OF x]
  obtain stored where
    coll: "medical_history (snd ?X)
        = filter (\<lambda>doc. doc ''user_id'' \<noteq> Some (VStr ''u1'')) (medical_history ?d2) @ [stored]"
    and s: "stored ''id'' = Some (VStr (uuid4 ?env))"
      "stored ''user_id'' = Some (VStr ''u1'')"
      "stored ''age'' = Some (VInt (age ?data))"
      "stored ''family_history'' = Some (VBool (family_history ?data))"
      "stored ''previous_biopsies'' = Some (VBool (previous_biopsies ?data))"
      "stored ''hormone_therapy'' = Some (VBool (hormone_therapy ?data))"
      "stored ''first_pregnancy_age''
         = Some (case first_pregnancy_age ?data of None \<Rightarrow> VNone | Some i \<Rightarrow> VInt i)"
      "stored ''menstruation_age''
         = Some (case menstruation_age ?data of None \<Rightarrow> VNone | Some i \<Rightarrow> VInt i)"
      "stored ''breast_density''
         = Some (case breast_density ?data of None \<Rightarrow> VNone | Some s \<Rightarrow> VStr s)"
    by (elim exE conjE) (rule that, assumption+)
  from coll [unfolded before] have after: "medical_history (snd ?X) = [other, stored]"
    by (simp add: d1 other)
  have fields: "stored ''id'' = Some (VStr ''id-2'')"
    "stored ''age'' = Some (VInt 46)"
    "stored ''family_history'' = Some (VBool True)"
    "stored ''previous_biopsies'' = Some (VBool False)"
    "stored ''hormone_therapy'' = Some (VBool True)"
    "stored ''first_pregnancy_age'' = Some (VInt 25)"
    "stored ''menstruation_age'' = Some VNone"
    "stored ''breast_density'' = Some (VStr ''dense'')"
    using s by (simp_all add: sample_request_def)
  from x after other s(2) fields have 1: "\<exists>h d3 other stored.
      ?X = (Inr h, d3) \<and>
      medical_history d3 = [other, stored] \<and>
      other ''user_id'' = Some (VStr ''u2'') \<and>
      other ''id'' = Some (VStr ''id-3'') \<and>
      stored ''user_id'' = Some (VStr ''u1'') \<and>
      stored ''id'' = Some (VStr ''id-2'') \<and>
      stored ''age'' = Some (VInt 46) \<and>
      stored ''family_history'' = Some (VBool True) \<and>
      stored ''previous_biopsies'' = Some (VBool False) \<and>
      stored ''hormone_therapy'' = Some (VBool True) \<and>
      stored ''first_pregnancy_age'' = Some (VInt 25) \<and>
      stored ''menstruation_age'' = Some VNone \<and>
      stored ''breast_density'' = Some (VStr ''dense'')"
    by (intro exI [of _ h] exI [of _ "snd ?X"] exI [of _ other] exI [of _ stored] conjI)
  have e: "medical_history empty_db = []"
    by (simp add: empty_db_def)
  then have a: "at_most_one_per_user (medical_history empty_db)"
    by (simp add: at_most_one_per_user_def)
  note 2 = medical_history_replaced [THEN conjunct1, THEN mp, OF a]
  note 3 = medical_history_replaced [THEN conjunct2, THEN conjunct1, THEN mp, OF e]
  from 1 2 3 show ?thesis by (intro conjI)
qed

section \<open>The ISO text of a timestamp keeps the order of time\<close>





















section \<open>Listing the analyses of a user\<close>









lemma find_docs_user:
  "find_docs (''user_id'', VStr u) ds = filter (\<lambda>doc. doc ''user_id'' = Some (VStr u)) ds"
  unfolding find_docs_def by (rule filter_cong) (simp_all add: matches_def)





text \<open>
  The two handlers that add analyses write the creation time as the ISO text of their clock
  reading, so a store they filled has the form the theorem below asks for.
\<close>

lemma created_at_texts_kept:
  assumes "\<forall>doc \<in> set (analyses d).
      \<exists>t. valid_datetime t \<and> doc ''created_at'' = Some (VStr (isoformat t))"
    and "valid_datetime (now env)"
  shows "\<forall>doc \<in> set (analyses (snd (analyze_image env d contents user_id))).
      \<exists>t. valid_datetime t \<and> doc ''created_at'' = Some (VStr (isoformat t))"
    and "\<forall>doc \<in> set (analyses (snd (risk_assessment env d data user_id))).
      \<exists>t. valid_datetime t \<and> doc ''created_at'' = Some (VStr (isoformat t))"
  using assms
  by (auto simp: analyze_image_def risk_assessment_def Let_def insert_one_def
      split: sum.splits option.splits)



text \<open>
  A record without creation time, or with a text that \<^verbatim>\<open>fromisoformat\<close> refuses, ends
  the request with the exception: no list is returned.
\<close>

lemma get_analyses_raises:
  "get_analyses env \<lparr>users = [], medical_history = [],
       analyses = [[''user_id'' \<mapsto> VStr ''u1'']]\<rparr> ''u1''
     = Inl (Unhandled ''KeyError: created_at'')"
  "get_analyses sample_env \<lparr>users = [], medical_history = [],
       analyses = [[''user_id'' \<mapsto> VStr ''u1'', ''created_at'' \<mapsto> VStr ''yesterday'']]\<rparr> ''u1''
     = Inl (Unhandled ''Invalid isoformat string: yesterday'')"
  by (simp_all add: get_analyses_def find_docs_user sort_desc_def to_list_def sample_env_def
      sample_fromisoformat_def)




end
